theory Spec2Isabelle
  imports Main "HOL-Library.Word" "HOL-Library.Mapping" "HOL-Library.AList_Mapping"
    "HOL-Library.Code_Target_Nat"
begin

unbundle bit_operations_syntax

section \<open>hue-cli: the entertainment streaming path\<close>

text \<open>
  A shallow embedding of the DTLS streaming code (\<^verbatim>\<open>DTLSStream\<close>, its frame
  encoder \<^verbatim>\<open>buildStreamMessage\<close> and \<^verbatim>\<open>SendColors\<close>) and of the WebSocket
  bridge (\<^verbatim>\<open>StartWebSocketServer\<close>, \<^verbatim>\<open>handleWebSocket\<close>, \<^verbatim>\<open>handleStatus\<close>,
  \<^verbatim>\<open>keepAlive\<close>). Go's \<^verbatim>\<open>uint8\<close> and \<^verbatim>\<open>uint16\<close> are words, a
  \<^verbatim>\<open>map[string]RGB\<close> is a \<open>(string, RGB) mapping\<close>, a \<^verbatim>\<open>bytes.Buffer\<close> is the list of
  the bytes written so far, and Go strings are byte strings.
\<close>

subsection \<open>Data\<close>

type_synonym byte = "8 word"
type_synonym uint16 = "16 word"

record RGB =
  R :: byte
  G :: byte
  B :: byte

text \<open>
  Of \<^verbatim>\<open>EntertainmentArea\<close> the streaming path reads \<^verbatim>\<open>ID\<close>, \<^verbatim>\<open>Name\<close> and
  \<^verbatim>\<open>Lights\<close>; \<^verbatim>\<open>Locations\<close> and \<^verbatim>\<open>Stream\<close> are never read there and are
  left out. The order of \<^verbatim>\<open>Lights\<close> is the order of the records in a frame.
\<close>

record EntertainmentArea =
  ID :: string
  Name :: string
  Type :: string
  Lights :: "string list"

text \<open>
  The \<^verbatim>\<open>*dtls.Conn\<close> is the transport. The model keeps what was handed to it: the
  datagrams of the \<^verbatim>\<open>Write\<close> calls that succeeded, oldest first. Of
  \<^verbatim>\<open>DTLSStream\<close> the channel \<^verbatim>\<open>stopChan\<close> is never used and is left out;
  \<^verbatim>\<open>updateRate\<close> is in milliseconds.
\<close>

record Conn =
  datagrams :: "byte list list"

record DTLSStream =
  conn :: Conn
  area :: EntertainmentArea
  sequenceNum :: byte
  isActive :: bool
  updateRate :: nat

subsection \<open>\<^verbatim>\<open>fmt.Sscanf(lightID, "%d", &lightIDNum)\<close> for a \<^verbatim>\<open>uint16\<close> operand\<close>

text \<open>
  The scanner belongs to Go's standard library. For the verb \<^verbatim>\<open>%d\<close> and a
  \<^verbatim>\<open>*uint16\<close> operand it skips leading space runes (a newline is an error for
  \<^verbatim>\<open>Sscanf\<close>), wants at least one decimal digit, reads the longest run of decimal
  digits, parses it with \<^verbatim>\<open>strconv.ParseUint(tok, 10, 64)\<close> and checks that the
  value fits 16 bits. No sign is accepted for an unsigned operand, and what follows the
  digits is left unread. At most \<^verbatim>\<open>hugeWid\<close> runes are consumed. On any error the
  operand keeps the value it had.
\<close>

datatype scan_error =
    ErrEOF
  | ErrUnexpectedNewline
  | ErrExpectedInteger
  | ErrValueOutOfRange
  | ErrUnsignedOverflow

definition hugeWid :: nat where
  "hugeWid = 2 ^ 30"

text \<open>
  The number of bytes of the space rune at the head of the input, 0 when the input does
  not start with one. The runes are those of the scanner's table: U+0009 to U+000D (the
  newline U+000A is handled by the caller), U+0020, U+0085, U+00A0, U+1680, U+2000 to
  U+200A, U+2028, U+2029, U+202F, U+205F and U+3000, in UTF-8.
\<close>

fun space_width :: "string \<Rightarrow> nat" where
  "space_width [] = 0"
| "space_width (c # cs) =
     (let n = (of_char c :: nat) in
      if n = 0x09 \<or> n = 0x0B \<or> n = 0x0C \<or> n = 0x0D \<or> n = 0x20 then 1
      else if n = 0xC2 then
        (case cs of d # _ \<Rightarrow> if (of_char d :: nat) = 0x85 \<or> (of_char d :: nat) = 0xA0 then 2 else 0
                  | [] \<Rightarrow> 0)
      else if n = 0xE1 then
        (case cs of d # e # _ \<Rightarrow>
            if (of_char d :: nat) = 0x9A \<and> (of_char e :: nat) = 0x80 then 3 else 0
          | _ \<Rightarrow> 0)
      else if n = 0xE2 then
        (case cs of d # e # _ \<Rightarrow>
            if (of_char d :: nat) = 0x80 \<and>
               ((0x80 \<le> (of_char e :: nat) \<and> (of_char e :: nat) \<le> 0x8A) \<or>
                (of_char e :: nat) = 0xA8 \<or> (of_char e :: nat) = 0xA9 \<or>
                (of_char e :: nat) = 0xAF) then 3
            else if (of_char d :: nat) = 0x81 \<and> (of_char e :: nat) = 0x9F then 3
            else 0
          | _ \<Rightarrow> 0)
      else if n = 0xE3 then
        (case cs of d # e # _ \<Rightarrow>
            if (of_char d :: nat) = 0x80 \<and> (of_char e :: nat) = 0x80 then 3 else 0
          | _ \<Rightarrow> 0)
      else 0)"

text \<open>
  \<^verbatim>\<open>SkipSpace\<close>: \<open>n\<close> counts the runes consumed so far. It stops at the end of the
  input, at the rune limit and at the first rune that is not a space.
\<close>

function SkipSpace :: "nat \<Rightarrow> string \<Rightarrow> scan_error + nat \<times> string" where
  "SkipSpace n s =
     (if s = [] \<or> hugeWid \<le> n then Inr (n, s)
      else if hd s = CHR 0x0A then Inl ErrUnexpectedNewline
      else if space_width s = 0 then Inr (n, s)
      else SkipSpace (Suc n) (drop (space_width s) s))"
  by pat_completeness auto
termination
  by (relation "measure (\<lambda>(n, s). length s)") auto

declare SkipSpace.simps [simp del]

text \<open>\<^verbatim>\<open>accept(decimalDigits)\<close>: the rune is one of \<^verbatim>\<open>"0123456789"\<close>.\<close>

definition decimalDigits :: string where
  "decimalDigits = ''0123456789''"

definition isDigit :: "char \<Rightarrow> bool" where
  "isDigit c \<longleftrightarrow> c \<in> set decimalDigits"

text \<open>\<^verbatim>\<open>strconv.ParseUint(tok, 10, 64)\<close> on a token of decimal digits.\<close>

definition digitVal :: "char \<Rightarrow> nat" where
  "digitVal c = of_char c - of_char CHR ''0''"

definition decimalValue :: "string \<Rightarrow> nat" where
  "decimalValue tok = foldl (\<lambda>acc c. 10 * acc + digitVal c) 0 tok"

definition ParseUint :: "string \<Rightarrow> scan_error + nat" where
  "ParseUint tok =
     (if decimalValue tok < 2 ^ 64 then Inr (decimalValue tok) else Inl ErrValueOutOfRange)"

text \<open>
  \<^verbatim>\<open>scanUint(verb, 16)\<close> after the \<^verbatim>\<open>SkipSpace\<close> of \<^verbatim>\<open>doScanf\<close>: spaces are
  skipped once more, the digits are accepted while the rune limit allows.
\<close>

definition scanUint :: "nat \<Rightarrow> string \<Rightarrow> scan_error + nat" where
  "scanUint n s =
     (case SkipSpace n s of
        Inl e \<Rightarrow> Inl e
      | Inr (n', rest) \<Rightarrow>
          if rest = [] \<or> hugeWid \<le> n' then Inl ErrEOF
          else if \<not> isDigit (hd rest) then Inl ErrExpectedInteger
          else
            (case ParseUint (take (hugeWid - n') (takeWhile isDigit rest)) of
               Inl e \<Rightarrow> Inl e
             | Inr i \<Rightarrow> if i < 2 ^ 16 then Inr i else Inl ErrUnsignedOverflow))"

text \<open>
  The call as a whole: the operand's new value and the error the call returns.
\<close>

definition Sscanf_d :: "string \<Rightarrow> uint16 \<Rightarrow> uint16 \<times> scan_error option" where
  "Sscanf_d str v =
     (case SkipSpace 0 str of
        Inl e \<Rightarrow> (v, Some e)
      | Inr (n, rest) \<Rightarrow>
          (case scanUint n rest of
             Inl e \<Rightarrow> (v, Some e)
           | Inr i \<Rightarrow> (of_nat i, None)))"

subsection \<open>The frame encoder\<close>

text \<open>\<^verbatim>\<open>binary.Write(buf, binary.BigEndian, x)\<close> for a \<^verbatim>\<open>uint16\<close>.\<close>

definition WriteBigEndian16 :: "byte list \<Rightarrow> uint16 \<Rightarrow> byte list" where
  "WriteBigEndian16 buf x = buf @ [ucast (drop_bit 8 x), ucast x]"

definition WriteString :: "byte list \<Rightarrow> string \<Rightarrow> byte list" where
  "WriteString buf str = buf @ map of_char str"

definition WriteByte :: "byte list \<Rightarrow> byte \<Rightarrow> byte list" where
  "WriteByte buf b = buf @ [b]"

text \<open>The body of the loop over \<^verbatim>\<open>s.area.Lights\<close>, for one light.\<close>

definition writeLight :: "(string, RGB) mapping \<Rightarrow> byte list \<Rightarrow> string \<Rightarrow> byte list" where
  "writeLight lightColors buf lightID =
     (let rgb = (case Mapping.lookup lightColors lightID of
                   None \<Rightarrow> \<lparr>R = 0, G = 0, B = 0\<rparr>
                 | Some c \<Rightarrow> c);
          buf = WriteByte buf 0x00;
          lightIDNum = fst (Sscanf_d lightID 0);
          buf = WriteBigEndian16 buf lightIDNum;
          buf = WriteBigEndian16 buf (push_bit 8 (ucast (R rgb)));
          buf = WriteBigEndian16 buf (push_bit 8 (ucast (G rgb)));
          buf = WriteBigEndian16 buf (push_bit 8 (ucast (B rgb)))
      in buf)"

fun writeLights :: "(string, RGB) mapping \<Rightarrow> byte list \<Rightarrow> string list \<Rightarrow> byte list" where
  "writeLights lightColors buf [] = buf"
| "writeLights lightColors buf (lightID # rest) =
     writeLights lightColors (writeLight lightColors buf lightID) rest"

definition buildStreamMessage :: "DTLSStream \<Rightarrow> (string, RGB) mapping \<Rightarrow> byte list" where
  "buildStreamMessage s lightColors =
     (let buf = [];
          buf = WriteString buf ''HueStream'';
          buf = WriteByte buf 0x01;
          buf = WriteByte buf 0x00;
          buf = WriteByte buf (sequenceNum s);
          buf = WriteByte buf 0x00;
          buf = WriteByte buf 0x00;
          buf = WriteByte buf 0x00;
          buf = WriteByte buf 0x00
      in writeLights lightColors buf (Lights (area s)))"

subsection \<open>Errors and the transport\<close>

text \<open>
  A Go \<^verbatim>\<open>error\<close> is modelled by its message; \<^verbatim>\<open>fmt.Errorf("...: %v", err)\<close> is
  the prefix put before the message of \<open>err\<close>. A function that returns
  \<^verbatim>\<open>error\<close> returns \<open>error option\<close>, \<open>None\<close> for \<^verbatim>\<open>nil\<close>.

  What the network does is an input of the model: every call that reaches the outside
  takes the outcome of that call as its first argument.
\<close>

type_synonym error = string

text \<open>
  \<^verbatim>\<open>conn.Write(p)\<close>: the outcome \<open>None\<close> is a datagram accepted by the transport,
  \<open>Some e\<close> is the error \<open>e\<close>, with nothing sent.
\<close>

definition Write :: "error option \<Rightarrow> Conn \<Rightarrow> byte list \<Rightarrow> Conn \<times> error option" where
  "Write outcome c p =
     (case outcome of
        None \<Rightarrow> (c\<lparr>datagrams := datagrams c @ [p]\<rparr>, None)
      | Some e \<Rightarrow> (c, Some e))"

subsection \<open>The session: \<^verbatim>\<open>createDTLSStreamConnection\<close>, \<^verbatim>\<open>SendColors\<close>, \<^verbatim>\<open>Close\<close>\<close>

text \<open>
  \<^verbatim>\<open>createDTLSStreamConnection\<close> fails at the first of its steps that fails; the
  outcome names that step, in the order of the source.
\<close>

datatype connect_outcome =
    LoadConfigFails error
  | ClientKeyEmpty
  | ClientKeyNotHex error
  | ResolveFails error
  | DialFails error
  | HandshakeFails error
  | Connected

definition createDTLSStreamConnection ::
    "connect_outcome \<Rightarrow> EntertainmentArea \<Rightarrow> error + DTLSStream" where
  "createDTLSStreamConnection outcome a =
     (case outcome of
        LoadConfigFails e \<Rightarrow> Inl (''failed to load bridge config: '' @ e)
      | ClientKeyEmpty \<Rightarrow>
          Inl ''no clientkey found - run 'hue auth' to generate streaming credentials''
      | ClientKeyNotHex e \<Rightarrow> Inl (''invalid clientkey format: '' @ e)
      | ResolveFails e \<Rightarrow> Inl (''failed to resolve address: '' @ e)
      | DialFails e \<Rightarrow> Inl (''failed to create UDP connection: '' @ e)
      | HandshakeFails e \<Rightarrow> Inl (''DTLS handshake failed: '' @ e)
      | Connected \<Rightarrow>
          Inr \<lparr>conn = \<lparr>datagrams = []\<rparr>, area = a, sequenceNum = 0, isActive = True,
               updateRate = 16\<rparr>)"

definition SendColors ::
    "error option \<Rightarrow> DTLSStream \<Rightarrow> (string, RGB) mapping \<Rightarrow> DTLSStream \<times> error option" where
  "SendColors outcome s lightColors =
     (if \<not> isActive s then (s, Some ''stream not active'')
      else
        (let buf = buildStreamMessage s lightColors;
             (c, err) = Write outcome (conn s) buf;
             s = s\<lparr>conn := c\<rparr>
         in case err of
              Some e \<Rightarrow> (s, Some (''failed to send DTLS message: '' @ e))
            | None \<Rightarrow> (s\<lparr>sequenceNum := sequenceNum s + 1\<rparr>, None)))"

text \<open>
  \<^verbatim>\<open>Close\<close> clears the flag and returns what closing the connection returns; a
  stream that was created has a connection.
\<close>

definition Close :: "error option \<Rightarrow> DTLSStream \<Rightarrow> DTLSStream \<times> error option" where
  "Close outcome s = (s\<lparr>isActive := False\<rparr>, outcome)"

subsection \<open>The bridge server\<close>

record WebSocketServer =
  port :: int
  dtlsStream :: "DTLSStream option"
  area :: EntertainmentArea
  isStreaming :: bool
  lastMessageTime :: nat
  lastColors :: "(string, RGB) mapping"

text \<open>
  \<^verbatim>\<open>LightColorMessage\<close> has the one field \<^verbatim>\<open>Lights\<close>, a map from light ID to a
  struct of three \<^verbatim>\<open>uint8\<close>.
\<close>

type_synonym LightColorMessage = "(string, RGB) mapping"

text \<open>
  What a producer sends: a JSON object whose \<^verbatim>\<open>lights\<close> member lists, per light
  ID, the integers written under \<^verbatim>\<open>r\<close>, \<^verbatim>\<open>g\<close> and \<^verbatim>\<open>b\<close>, in the order of
  the text. \<open>ReadFailed\<close> is a read that fails before any decoding (the connection is
  closed, the text is not JSON).
\<close>

type_synonym json_lights = "(string \<times> int \<times> int \<times> int) list"

datatype inbound =
    ReadFailed error
  | JSONText json_lights

text \<open>
  \<^verbatim>\<open>conn.ReadJSON(&msg)\<close> hands the text to the decoder of \<^verbatim>\<open>encoding/json\<close>,
  which belongs to Go's standard library. A JSON number that does not fit the target
  type (here \<^verbatim>\<open>uint8\<close>: negative, or above 255) is an
  \<^verbatim>\<open>UnmarshalTypeError\<close>: the field is skipped and the call returns the error. A
  light ID that appears twice keeps its last value.
\<close>

definition decodeUint8 :: "int \<Rightarrow> error + byte" where
  "decodeUint8 n =
     (if 0 \<le> n \<and> n \<le> 255 then Inr (word_of_int n)
      else Inl ''json: cannot unmarshal number into Go struct field of type uint8'')"

fun decodeLights :: "LightColorMessage \<Rightarrow> json_lights \<Rightarrow> error + LightColorMessage" where
  "decodeLights msg [] = Inr msg"
| "decodeLights msg ((lightID, r, g, b) # rest) =
     (case decodeUint8 r of
        Inl e \<Rightarrow> Inl e
      | Inr r' \<Rightarrow>
          (case decodeUint8 g of
             Inl e \<Rightarrow> Inl e
           | Inr g' \<Rightarrow>
               (case decodeUint8 b of
                  Inl e \<Rightarrow> Inl e
                | Inr b' \<Rightarrow>
                    decodeLights (Mapping.update lightID \<lparr>R = r', G = g', B = b'\<rparr> msg) rest)))"

definition ReadJSON :: "inbound \<Rightarrow> error + LightColorMessage" where
  "ReadJSON inb =
     (case inb of
        ReadFailed e \<Rightarrow> Inl e
      | JSONText lights \<Rightarrow> decodeLights Mapping.empty lights)"

text \<open>
  One turn of the \<^verbatim>\<open>for\<close> loop of \<^verbatim>\<open>handleWebSocket\<close>: what the loop does next,
  the error object written back to the producer if any, and the server. The loop that
  copies \<^verbatim>\<open>msg.Lights\<close> into \<^verbatim>\<open>colors\<close> entry by entry yields the same map.
  \<^verbatim>\<open>s.dtlsStream.SendColors\<close> on a nil stream is a nil dereference: the handler
  panics.
\<close>

datatype loop = Continue | Break | Panic

definition readTurn ::
    "inbound \<Rightarrow> error option \<Rightarrow> nat \<Rightarrow> WebSocketServer
       \<Rightarrow> loop \<times> error option \<times> WebSocketServer" where
  "readTurn inb outcome now s =
     (case ReadJSON inb of
        Inl err \<Rightarrow> (Break, None, s)
      | Inr msg \<Rightarrow>
          (let colors = msg in
           case dtlsStream s of
             None \<Rightarrow> (Panic, None, s)
           | Some st \<Rightarrow>
               (let (st', err) = SendColors outcome st colors;
                    s = s\<lparr>dtlsStream := Some st'\<rparr>
                in case err of
                     Some e \<Rightarrow> (Break, Some e, s)
                   | None \<Rightarrow> (Continue, None, s\<lparr>lastMessageTime := now, lastColors := colors\<rparr>))))"

text \<open>
  The loop over what one producer sends: each element is a read, the outcome of the
  transport write it leads to and the time of that turn. A connection whose input is
  used up is closed: the next read fails.
\<close>

fun readLoop ::
    "(inbound \<times> error option \<times> nat) list \<Rightarrow> WebSocketServer
       \<Rightarrow> loop \<times> error list \<times> WebSocketServer" where
  "readLoop [] s = (Break, [], s)"
| "readLoop ((inb, outcome, now) # rest) s =
     (case readTurn inb outcome now s of
        (Continue, _, s') \<Rightarrow> readLoop rest s'
      | (ctl, None, s') \<Rightarrow> (ctl, [], s')
      | (ctl, Some e, s') \<Rightarrow> (ctl, [e], s'))"

text \<open>
  \<^verbatim>\<open>handleWebSocket\<close> for one producer running alone: the upgrade, the flag set,
  the loop, the flag cleared. A panic leaves the handler before the flag is cleared.
\<close>

definition handleWebSocket ::
    "error option \<Rightarrow> (inbound \<times> error option \<times> nat) list \<Rightarrow> WebSocketServer
       \<Rightarrow> error list \<times> WebSocketServer" where
  "handleWebSocket upgrade inputs s =
     (case upgrade of
        Some e \<Rightarrow> ([], s)
      | None \<Rightarrow>
          (let s = s\<lparr>isStreaming := True\<rparr>;
               (ctl, replies, s) = readLoop inputs s
           in if ctl = Panic then (replies, s)
              else (replies, s\<lparr>isStreaming := False\<rparr>)))"

text \<open>\<^verbatim>\<open>handleStatus\<close>: a preflight request is answered without a body.\<close>

datatype response =
    Preflight
  | Status (streaming: bool) (areaName: string) (lightIDs: "string list") (statusPort: int)

definition handleStatus :: "string \<Rightarrow> WebSocketServer \<Rightarrow> response" where
  "handleStatus method s =
     (if method = ''OPTIONS'' then Preflight
      else
        (let isStreaming = isStreaming s
         in Status isStreaming (Name (area s)) (Lights (area s)) (port s)))"

subsection \<open>\<^verbatim>\<open>keepAlive\<close>\<close>

text \<open>The loop that fills \<^verbatim>\<open>colors\<close> with black for every light of the area.\<close>

fun blackColors :: "(string, RGB) mapping \<Rightarrow> string list \<Rightarrow> (string, RGB) mapping" where
  "blackColors colors [] = colors"
| "blackColors colors (lightID # rest) =
     blackColors (Mapping.update lightID \<lparr>R = 0, G = 0, B = 0\<rparr> colors) rest"

text \<open>
  The colours a tick sends. A Go map is finite, so \<^verbatim>\<open>len(lastColors) > 0\<close> says
  that the map is not empty.
\<close>

definition keepAliveColors :: "WebSocketServer \<Rightarrow> (string, RGB) mapping" where
  "keepAliveColors s =
     (let lastColors = lastColors s
      in if \<not> Mapping.is_empty lastColors then lastColors
         else blackColors Mapping.empty (Lights (area s)))"

text \<open>
  One tick of the ticker: nothing without a stream; otherwise the colours are sent and,
  when that succeeded, the time of the last message is set. A failure is printed only.
\<close>

definition keepAliveTick :: "error option \<Rightarrow> nat \<Rightarrow> WebSocketServer \<Rightarrow> WebSocketServer" where
  "keepAliveTick outcome now s =
     (case dtlsStream s of
        None \<Rightarrow> s
      | Some st \<Rightarrow>
          (let colors = keepAliveColors s;
               (st', err) = SendColors outcome st colors;
               s = s\<lparr>dtlsStream := Some st'\<rparr>
           in case err of
                Some e \<Rightarrow> s
              | None \<Rightarrow> s\<lparr>lastMessageTime := now\<rparr>))"

text \<open>The ticks up to the stop signal, each with the outcome of its write and its time.\<close>

fun keepAlive :: "(error option \<times> nat) list \<Rightarrow> WebSocketServer \<Rightarrow> WebSocketServer" where
  "keepAlive [] s = s"
| "keepAlive ((outcome, now) # ticks) s = keepAlive ticks (keepAliveTick outcome now s)"

subsection \<open>\<^verbatim>\<open>StartWebSocketServer\<close>\<close>

text \<open>
  The calls of the activation path that reach outside the process, in the order they
  are made. \<open>Sleep\<close> carries the argument of \<^verbatim>\<open>time.Sleep\<close>, a number of
  nanoseconds.
\<close>

datatype event =
    ActivateStreaming string
  | DeactivateStreaming string
  | Sleep nat
  | CreateDTLSStreamConnection
  | StartKeepAlive
  | ListenAndServe int
  | StopKeepAlive
  | CloseStream

text \<open>
  What the outside answers: to \<^verbatim>\<open>activateStreaming\<close>, to the first and, if it is
  made, the second call of \<^verbatim>\<open>createDTLSStreamConnection\<close>, and the error with
  which \<^verbatim>\<open>ListenAndServe\<close> returns in the end (\<open>None\<close> for
  \<^verbatim>\<open>http.ErrServerClosed\<close>).
\<close>

record outside =
  activate :: "error option"
  firstConnect :: connect_outcome
  secondConnect :: connect_outcome
  served :: "error option"

text \<open>\<^verbatim>\<open>cleanup\<close>: the stop signal, the stream closed, streaming deactivated.\<close>

definition cleanup :: "WebSocketServer \<Rightarrow> event list \<times> WebSocketServer" where
  "cleanup s =
     (case dtlsStream s of
        None \<Rightarrow> ([StopKeepAlive, DeactivateStreaming (ID (area s))], s)
      | Some st \<Rightarrow>
          ([StopKeepAlive, CloseStream, DeactivateStreaming (ID (area s))],
           s\<lparr>dtlsStream := Some (fst (Close None st))\<rparr>))"

text \<open>
  The function from the stream stored in the server to its return. While
  \<^verbatim>\<open>ListenAndServe\<close> blocks, the handlers and the keeper run; their steps are the
  runs of the next subsection.
\<close>

definition serve ::
    "outside \<Rightarrow> WebSocketServer \<Rightarrow> DTLSStream \<Rightarrow> event list \<Rightarrow> event list \<times> error option" where
  "serve out server st tr =
     (let server = server\<lparr>dtlsStream := Some st\<rparr>;
          tr = tr @ [StartKeepAlive, ListenAndServe (port server)]
      in case served out of
           Some err \<Rightarrow> (tr @ fst (cleanup server), Some err)
         | None \<Rightarrow> (tr, None))"

definition StartWebSocketServer ::
    "outside \<Rightarrow> nat \<Rightarrow> EntertainmentArea \<Rightarrow> int \<Rightarrow> event list \<times> error option" where
  "StartWebSocketServer out now a p =
     (let server = \<lparr>port = p, dtlsStream = None, area = a, isStreaming = False,
                     lastMessageTime = now, lastColors = Mapping.empty\<rparr>;
          tr = [ActivateStreaming (ID a)]
      in case activate out of
           Some err \<Rightarrow> (tr, Some (''failed to activate streaming: '' @ err))
         | None \<Rightarrow>
             (let tr = tr @ [CreateDTLSStreamConnection]
              in case createDTLSStreamConnection (firstConnect out) a of
                   Inr st \<Rightarrow> serve out server st tr
                 | Inl err \<Rightarrow>
                     (let tr = tr @ [DeactivateStreaming (ID a), Sleep 1000,
                                     CreateDTLSStreamConnection]
                      in case createDTLSStreamConnection (secondConnect out) a of
                           Inl err \<Rightarrow>
                             (tr @ [DeactivateStreaming (ID a)],
                              Some (''failed to create DTLS connection: '' @ err))
                         | Inr st \<Rightarrow> serve out server st tr)))"

subsection \<open>Several producers and the keeper on one server\<close>

text \<open>
  The handlers and the keeper run as goroutines on the one server. A run is a sequence
  of their steps: a producer enters (its handler sets the flag and starts its loop), a
  producer in its loop takes one turn of the loop (and, when the turn ends the loop,
  its handler clears the flag and returns), the keeper ticks. \<open>inLoop\<close> holds the
  producers that entered and have not left.
\<close>

datatype action =
    Enter nat
  | Turn nat inbound "error option" nat
  | Tick "error option" nat

record bridge =
  server :: WebSocketServer
  inLoop :: "nat set"

fun step :: "bridge \<Rightarrow> action \<Rightarrow> bridge" where
  "step b (Enter p) =
     (if p \<in> inLoop b then b
      else \<lparr>server = (server b)\<lparr>isStreaming := True\<rparr>, inLoop = insert p (inLoop b)\<rparr>)"
| "step b (Turn p inb outcome now) =
     (if p \<notin> inLoop b then b
      else
        (case readTurn inb outcome now (server b) of
           (Continue, _, s) \<Rightarrow> b\<lparr>server := s\<rparr>
         | (Break, _, s) \<Rightarrow> \<lparr>server = s\<lparr>isStreaming := False\<rparr>, inLoop = inLoop b - {p}\<rparr>
         | (Panic, _, s) \<Rightarrow> \<lparr>server = s, inLoop = inLoop b - {p}\<rparr>))"
| "step b (Tick outcome now) = b\<lparr>server := keepAliveTick outcome now (server b)\<rparr>"

definition run :: "bridge \<Rightarrow> action list \<Rightarrow> bridge" where
  "run b acts = foldl step b acts"

text \<open>The server as \<^verbatim>\<open>StartWebSocketServer\<close> hands it to the handlers.\<close>

definition started :: "DTLSStream \<Rightarrow> nat \<Rightarrow> EntertainmentArea \<Rightarrow> int \<Rightarrow> bridge" where
  "started st now a p =
     \<lparr>server = \<lparr>port = p, dtlsStream = Some st, area = a, isStreaming = False,
                lastMessageTime = now, lastColors = Mapping.empty\<rparr>,
      inLoop = {}\<rparr>"

subsection \<open>Reading a frame back\<close>

text \<open>
  The receiver's view of a frame: the 9-byte record of the \<open>i\<close>-th light after the
  16-byte header, and the big-endian 16-bit fields in it.
\<close>

definition lightRecord :: "byte list \<Rightarrow> nat \<Rightarrow> byte list" where
  "lightRecord msg i = take 9 (drop (16 + 9 * i) msg)"

definition beUint16 :: "byte list \<Rightarrow> nat \<Rightarrow> uint16" where
  "beUint16 bs off = push_bit 8 (ucast (bs ! off)) OR ucast (bs ! (off + 1))"

definition encodedID :: "byte list \<Rightarrow> nat \<Rightarrow> nat" where
  "encodedID msg i = unat (beUint16 (lightRecord msg i) 1)"

definition encodedRGB :: "byte list \<Rightarrow> nat \<Rightarrow> nat \<times> nat \<times> nat" where
  "encodedRGB msg i =
     (unat (beUint16 (lightRecord msg i) 3),
      unat (beUint16 (lightRecord msg i) 5),
      unat (beUint16 (lightRecord msg i) 7))"

definition frameSequence :: "byte list \<Rightarrow> nat" where
  "frameSequence msg = unat (msg ! 11)"

text \<open>The colour the encoder uses for a light: black when the map has none.\<close>

definition colorOf :: "(string, RGB) mapping \<Rightarrow> string \<Rightarrow> RGB" where
  "colorOf lc l = (case Mapping.lookup lc l of None \<Rightarrow> \<lparr>R = 0, G = 0, B = 0\<rparr> | Some c \<Rightarrow> c)"

text \<open>The 16 bytes before the light records, for a sequence number \<open>q\<close>.\<close>

definition streamHeader :: "byte \<Rightarrow> byte list" where
  "streamHeader q =
     [0x48, 0x75, 0x65, 0x53, 0x74, 0x72, 0x65, 0x61, 0x6D, 0x01, 0x00, q,
      0x00, 0x00, 0x00, 0x00]"

text \<open>What \<^verbatim>\<open>GET /status\<close> reports as \<^verbatim>\<open>streaming\<close>.\<close>

definition reportedStreaming :: "bridge \<Rightarrow> bool" where
  "reportedStreaming b =
     (case handleStatus ''GET'' (server b) of Status f _ _ _ \<Rightarrow> f | Preflight \<Rightarrow> False)"

text \<open>
  The invariant of the runs: the server has its stream, and the flag is set only while
  some producer is in its loop.
\<close>

definition flagSound :: "bridge \<Rightarrow> bool" where
  "flagSound b \<longleftrightarrow>
     dtlsStream (server b) \<noteq> None \<and> (isStreaming (server b) \<longrightarrow> inLoop b \<noteq> {})"

text \<open>
  An action that is a producer entering; an action that is the keeper's or producer
  \<open>p\<close>'s; and the invariant of the runs in which only producer \<open>q\<close> takes part.
\<close>

fun isEnter :: "action \<Rightarrow> bool" where
  "isEnter (Enter q) = True"
| "isEnter (Turn q inb outcome now) = False"
| "isEnter (Tick outcome now) = False"

fun byProducer :: "nat \<Rightarrow> action \<Rightarrow> bool" where
  "byProducer p (Enter q) = (q = p)"
| "byProducer p (Turn q inb outcome now) = (q = p)"
| "byProducer p (Tick outcome now) = True"

definition loneSound :: "nat \<Rightarrow> bridge \<Rightarrow> bool" where
  "loneSound q b \<longleftrightarrow>
     dtlsStream (server b) \<noteq> None \<and> inLoop b \<subseteq> {q} \<and>
     (isStreaming (server b) \<longleftrightarrow> q \<in> inLoop b)"

text \<open>
  A message all of whose channel values lie within 0 to 255, and the map such a message
  decodes to: every entry stored with its values as they are, a later entry for the
  same light replacing an earlier one.
\<close>

definition channelOK :: "int \<Rightarrow> bool" where
  "channelOK n \<longleftrightarrow> 0 \<le> n \<and> n \<le> 255"

fun inRange :: "json_lights \<Rightarrow> bool" where
  "inRange [] = True"
| "inRange ((l, r, g, b) # rest) =
     (channelOK r \<and> channelOK g \<and> channelOK b \<and> inRange rest)"

fun stored :: "LightColorMessage \<Rightarrow> json_lights \<Rightarrow> LightColorMessage" where
  "stored m [] = m"
| "stored m ((l, r, g, b) # rest) =
     stored (Mapping.update l \<lparr>R = word_of_int r, G = word_of_int g, B = word_of_int b\<rparr> m)
       rest"

text \<open>A numeric light ID in the words of the specification: decimal digits only.\<close>

definition numericID :: "string \<Rightarrow> bool" where
  "numericID l \<longleftrightarrow> l \<noteq> [] \<and> (\<forall>c \<in> set l. isDigit c)"

subsection \<open>Concrete inputs\<close>

definition exampleArea :: EntertainmentArea where
  "exampleArea =
     \<lparr>ID = ''1'', Name = ''Room'', Type = ''entertainment'', Lights = [''5'', ''6'']\<rparr>"

text \<open>An active stream whose next frame carries the sequence number 255.\<close>

definition exampleStream :: DTLSStream where
  "exampleStream =
     \<lparr>conn = \<lparr>datagrams = []\<rparr>, area = exampleArea, sequenceNum = 255, isActive = True,
      updateRate = 16\<rparr>"

definition red :: RGB where
  "red = \<lparr>R = 255, G = 0, B = 0\<rparr>"

text \<open>Both attempts to open the session fail in the handshake.\<close>

definition exampleOutside :: outside where
  "exampleOutside =
     \<lparr>activate = None, firstConnect = HandshakeFails ''timeout'',
      secondConnect = HandshakeFails ''timeout'', served = None\<rparr>"

text \<open>The server as started on the example stream, nothing forwarded yet.\<close>

definition exampleServer :: WebSocketServer where
  "exampleServer =
     \<lparr>port = 8080, dtlsStream = Some exampleStream, area = exampleArea, isStreaming = False,
      lastMessageTime = 0, lastColors = Mapping.empty\<rparr>"

text \<open>A stream whose area lists light IDs that are not plain small numbers.\<close>

definition oddStream :: DTLSStream where
  "oddStream =
     \<lparr>conn = \<lparr>datagrams = []\<rparr>,
      area = \<lparr>ID = ''1'', Name = ''Room'', Type = ''entertainment'',
              Lights = [''12abc'', ''70000'', ''lamp'', ''70000abc'']\<rparr>,
      sequenceNum = 0, isActive = True, updateRate = 16\<rparr>"

section \<open>Properties\<close>

subsection \<open>The frame is a header and one record per light\<close>

lemma writeLight_append: "writeLight lc buf l = buf @ writeLight lc [] l"
  by (simp add: writeLight_def WriteByte_def WriteBigEndian16_def Let_def)

lemma length_writeLight: "length (writeLight lc [] l) = 9"
  by (simp add: writeLight_def WriteByte_def WriteBigEndian16_def Let_def)

lemma writeLights_concat:
  "writeLights lc buf ls = buf @ concat (map (writeLight lc []) ls)"
proof (induction ls arbitrary: buf)
  case Nil
  show ?case by simp
next
  case (Cons l ls)
  have "writeLights lc buf (l # ls) = writeLights lc (writeLight lc buf l) ls" by simp
  also have "\<dots> = writeLight lc buf l @ concat (map (writeLight lc []) ls)" by (rule Cons.IH)
  also have "\<dots> = buf @ concat (map (writeLight lc []) (l # ls))"
    by (subst writeLight_append) simp
  finally show ?case .
qed

lemma length_streamHeader: "length (streamHeader q) = 16"
  by (simp add: streamHeader_def)

lemma buildStreamMessage_split:
  "buildStreamMessage s lc =
     streamHeader (sequenceNum s) @ concat (map (writeLight lc []) (Lights (DTLSStream.area s)))"
  by (simp add: buildStreamMessage_def WriteString_def WriteByte_def Let_def writeLights_concat
      streamHeader_def)

lemma length_concat_records:
  "length (concat (map (writeLight lc []) ls)) = 9 * length ls"
  by (induction ls) (simp_all add: length_writeLight)

text \<open>
  Claim C1. For every colour map and every list of lights, the frame built by
  \<^verbatim>\<open>buildStreamMessage\<close> has exactly \<open>16 + 9 * n\<close> bytes, \<open>n\<close> the number of
  lights of the area: its first 16 bytes are the tag \<^verbatim>\<open>HueStream\<close>, the version
  \<open>0x01 0x00\<close>, the sequence byte, two reserved zero bytes, the colour space byte
  \<open>0x00\<close> and one reserved zero byte; what follows is, for every light in the order of
  the list, its record, and every record has 9 bytes.
\<close>

theorem frame_length:
  "length (buildStreamMessage s lc) = 16 + 9 * length (Lights (DTLSStream.area s)) \<and>
   take 16 (buildStreamMessage s lc) =
     [0x48, 0x75, 0x65, 0x53, 0x74, 0x72, 0x65, 0x61, 0x6D, 0x01, 0x00, sequenceNum s,
      0x00, 0x00, 0x00, 0x00] \<and>
   drop 16 (buildStreamMessage s lc) =
     concat (map (writeLight lc []) (Lights (DTLSStream.area s))) \<and>
   (\<forall>l. length (writeLight lc [] l) = 9)"
  by (simp add: buildStreamMessage_split length_concat_records length_writeLight
      length_streamHeader) (simp add: streamHeader_def)

subsection \<open>The fields of a record\<close>

lemma nth_records:
  "i < length ls \<Longrightarrow>
   take 9 (drop (9 * i) (concat (map (writeLight lc []) ls))) = writeLight lc [] (ls ! i)"
proof (induction ls arbitrary: i)
  case Nil
  then show ?case by simp
next
  case (Cons l ls)
  show ?case
  proof (cases i)
    case 0
    then show ?thesis by (simp add: length_writeLight)
  next
    case (Suc j)
    with Cons.prems have j: "j < length ls" by simp
    have "drop (9 * i) (writeLight lc [] l @ concat (map (writeLight lc []) ls)) =
          drop (9 * j) (concat (map (writeLight lc []) ls))"
      using Suc by (simp add: length_writeLight)
    then show ?thesis using Cons.IH [OF j] Suc by simp
  qed
qed

lemma lightRecord_build:
  "i < length (Lights (DTLSStream.area s)) \<Longrightarrow>
   lightRecord (buildStreamMessage s lc) i = writeLight lc [] (Lights (DTLSStream.area s) ! i)"
  by (simp add: lightRecord_def buildStreamMessage_split nth_records length_streamHeader)

lemma unat_byte_less: "unat (x :: byte) < 256"
  using unsigned_less [of x, where 'a = nat] by simp

lemma unat_ucast_byte: "unat (ucast (x :: byte) :: uint16) = unat x"
proof -
  have "unat x < 2 ^ 16" using unat_byte_less [of x] by simp
  then show ?thesis by (simp add: unsigned_ucast_eq take_bit_nat_eq_self)
qed

lemma unat_shift8: "unat (push_bit 8 (ucast (x :: byte)) :: uint16) = push_bit 8 (unat x)"
proof -
  have "256 * unat x < 65536" using unat_byte_less [of x] by simp
  then show ?thesis
    by (simp add: push_bit_eq_mult unat_word_ariths unat_ucast_byte mult.commute)
qed

lemma be16_roundtrip:
  "push_bit 8 (ucast (ucast (drop_bit 8 x) :: byte)) OR ucast (ucast x :: byte) = (x :: uint16)"
  by (rule bit_word_eqI) (auto simp add: bit_simps)

lemma writeLight_bytes:
  "writeLight lc [] l =
     [0x00] @ WriteBigEndian16 [] (fst (Sscanf_d l 0))
       @ WriteBigEndian16 [] (push_bit 8 (ucast (R (colorOf lc l))))
       @ WriteBigEndian16 [] (push_bit 8 (ucast (G (colorOf lc l))))
       @ WriteBigEndian16 [] (push_bit 8 (ucast (B (colorOf lc l))))"
  by (simp add: writeLight_def WriteByte_def WriteBigEndian16_def Let_def colorOf_def)

lemma writeLight_fields:
  "beUint16 (writeLight lc [] l) 1 = fst (Sscanf_d l 0)"
  "beUint16 (writeLight lc [] l) 3 = push_bit 8 (ucast (R (colorOf lc l)))"
  "beUint16 (writeLight lc [] l) 5 = push_bit 8 (ucast (G (colorOf lc l)))"
  "beUint16 (writeLight lc [] l) 7 = push_bit 8 (ucast (B (colorOf lc l)))"
  by (simp_all add: writeLight_bytes beUint16_def WriteBigEndian16_def be16_roundtrip)

text \<open>
  Claim C2. For every light of the area, at its position \<open>i\<close> in the list: when the
  colour map has no entry for it, the three 16-bit big-endian channel values of its
  record are \<open>(0, 0, 0)\<close>; when the map has the colour \<open>c\<close>, each of them is the
  channel of \<open>c\<close> (0 to 255) shifted left by 8 bits.
\<close>

theorem frame_colors:
  "i < length (Lights (DTLSStream.area s)) \<Longrightarrow>
   encodedRGB (buildStreamMessage s lc) i =
     (case Mapping.lookup lc (Lights (DTLSStream.area s) ! i) of
        None \<Rightarrow> (0, 0, 0)
      | Some c \<Rightarrow> (push_bit 8 (unat (R c)), push_bit 8 (unat (G c)), push_bit 8 (unat (B c))))"
  by (simp add: encodedRGB_def lightRecord_build writeLight_fields unat_shift8 colorOf_def
      split: option.split)

text \<open>
  The frame \<open>{"5": (255, 0, 0)}\<close> against the lights \<open>["5", "6"]\<close>: light 5 is encoded
  as \<open>(65280, 0, 0)\<close> and light 6 as \<open>(0, 0, 0)\<close>.
\<close>

theorem frame_colors_example:
  "0 < length (Lights (DTLSStream.area exampleStream)) \<and>
   1 < length (Lights (DTLSStream.area exampleStream)) \<and>
   Lights (DTLSStream.area exampleStream) = [''5'', ''6''] \<and>
   encodedRGB (buildStreamMessage exampleStream (Mapping.update ''5'' red Mapping.empty)) 0 = (65280, 0, 0) \<and>
   encodedRGB (buildStreamMessage exampleStream (Mapping.update ''5'' red Mapping.empty)) 1 = (0, 0, 0)"
  using frame_colors [of 0 exampleStream "(Mapping.update ''5'' red Mapping.empty)"]
        frame_colors [of 1 exampleStream "(Mapping.update ''5'' red Mapping.empty)"]
  by (simp add: exampleStream_def exampleArea_def red_def)

subsection \<open>\<^verbatim>\<open>SendColors\<close>\<close>

lemma SendColors_inactive:
  "\<not> isActive s \<Longrightarrow> SendColors w s lc = (s, Some ''stream not active'')"
  by (simp add: SendColors_def)

lemma SendColors_failed:
  "isActive s \<Longrightarrow>
   SendColors (Some e) s lc = (s, Some (''failed to send DTLS message: '' @ e))"
  by (simp add: SendColors_def Write_def)

lemma SendColors_sent:
  "isActive s \<Longrightarrow>
   SendColors None s lc =
     (s\<lparr>conn := (conn s)\<lparr>datagrams := datagrams (conn s) @ [buildStreamMessage s lc]\<rparr>,
        sequenceNum := sequenceNum s + 1\<rparr>, None)"
  by (simp add: SendColors_def Write_def)

lemma SendColors_ok_iff:
  "snd (SendColors w s lc) = None \<longleftrightarrow> isActive s \<and> w = None"
  by (cases w) (simp_all add: SendColors_def Write_def)

lemma frameSequence_build: "frameSequence (buildStreamMessage s lc) = unat (sequenceNum s)"
  by (simp add: frameSequence_def buildStreamMessage_split streamHeader_def)

lemma unat_byte_succ: "unat (x + 1 :: byte) = (unat x + 1) mod 256"
  by (simp add: unat_word_ariths)

text \<open>
  Claim C3. When two calls of \<^verbatim>\<open>SendColors\<close> on the same stream succeed one after
  the other, the transport has received the two frames in that order, and the sequence
  byte of the second frame is the sequence byte of the first plus 1 modulo 256: after
  255 comes 0.
\<close>

theorem sequence_steps:
  assumes "SendColors w1 s c1 = (s1, None)" and "SendColors w2 s1 c2 = (s2, None)"
  shows "datagrams (conn s2) =
           datagrams (conn s) @ [buildStreamMessage s c1, buildStreamMessage s1 c2] \<and>
         frameSequence (buildStreamMessage s1 c2) =
           (frameSequence (buildStreamMessage s c1) + 1) mod 256 \<and>
         (if frameSequence (buildStreamMessage s c1) = 255
          then frameSequence (buildStreamMessage s1 c2) = 0
          else frameSequence (buildStreamMessage s1 c2) =
                 frameSequence (buildStreamMessage s c1) + 1)"
proof -
  from assms(1) have a1: "isActive s" and w1: "w1 = None"
    using SendColors_ok_iff [of w1 s c1] by simp_all
  from assms(1) have s1:
    "s1 = s\<lparr>conn := (conn s)\<lparr>datagrams := datagrams (conn s) @ [buildStreamMessage s c1]\<rparr>,
            sequenceNum := sequenceNum s + 1\<rparr>"
    using SendColors_sent [OF a1, of c1] w1 by simp
  from assms(2) have a2: "isActive s1" and w2: "w2 = None"
    using SendColors_ok_iff [of w2 s1 c2] by simp_all
  from assms(2) have s2:
    "s2 = s1\<lparr>conn := (conn s1)\<lparr>datagrams := datagrams (conn s1) @ [buildStreamMessage s1 c2]\<rparr>,
             sequenceNum := sequenceNum s1 + 1\<rparr>"
    using SendColors_sent [OF a2, of c2] w2 by simp
  have d: "datagrams (conn s2) =
           datagrams (conn s) @ [buildStreamMessage s c1, buildStreamMessage s1 c2]"
    by (simp add: s2) (simp add: s1)
  have q: "sequenceNum s1 = sequenceNum s + 1" by (simp add: s1)
  have lt: "unat (sequenceNum s) < 256" by (rule unat_byte_less)
  have f: "frameSequence (buildStreamMessage s1 c2) =
           (frameSequence (buildStreamMessage s c1) + 1) mod 256"
    by (simp only: frameSequence_build q unat_byte_succ)
  show ?thesis using d f lt by (auto simp add: frameSequence_build)
qed

text \<open>Two sends on a stream at sequence number 255: the frames carry 255 and 0.\<close>

theorem sequence_steps_wraps:
  "SendColors None exampleStream Mapping.empty =
     (fst (SendColors None exampleStream Mapping.empty), None) \<and>
   SendColors None (fst (SendColors None exampleStream Mapping.empty)) Mapping.empty =
     (fst (SendColors None (fst (SendColors None exampleStream Mapping.empty)) Mapping.empty), None) \<and>
   frameSequence (buildStreamMessage exampleStream Mapping.empty) = 255 \<and>
   frameSequence
     (buildStreamMessage (fst (SendColors None exampleStream Mapping.empty)) Mapping.empty) = 0"
proof -
  have a: "SendColors None exampleStream Mapping.empty =
             (fst (SendColors None exampleStream Mapping.empty), None)"
    by (simp add: SendColors_def Write_def exampleStream_def)
  have b: "SendColors None (fst (SendColors None exampleStream Mapping.empty)) Mapping.empty =
     (fst (SendColors None (fst (SendColors None exampleStream Mapping.empty)) Mapping.empty), None)"
    by (simp add: SendColors_def Write_def exampleStream_def)
  have c: "frameSequence (buildStreamMessage exampleStream Mapping.empty) = 255"
    by (simp add: frameSequence_build exampleStream_def)
  show ?thesis using sequence_steps [OF a b] a b c by simp
qed

text \<open>
  Claim C4 says that a failed write marks the stream inactive. On an active stream whose
  write fails with \<open>timeout\<close> the call returns an error and the stream is still active.
\<close>

theorem failed_write_not_inactive:
  "isActive exampleStream \<and>
   snd (SendColors (Some ''timeout'') exampleStream Mapping.empty) \<noteq> None \<and>
   isActive (fst (SendColors (Some ''timeout'') exampleStream Mapping.empty))"
  by (simp add: SendColors_def Write_def exampleStream_def)

text \<open>
  Claim C4, amended. For every call of \<^verbatim>\<open>SendColors\<close> on an active stream in which
  the write over the transport fails, the call returns the error
  \<open>failed to send DTLS message: ...\<close> and leaves the stream as it was: it is still
  active.
\<close>

theorem failed_write_keeps_active:
  "isActive s \<Longrightarrow>
   SendColors (Some e) s lc = (s, Some (''failed to send DTLS message: '' @ e)) \<and>
   isActive (fst (SendColors (Some e) s lc))"
  by (simp add: SendColors_failed)

theorem failed_write_keeps_active_example:
  "isActive exampleStream \<and>
   SendColors (Some ''timeout'') exampleStream Mapping.empty =
     (exampleStream, Some ''failed to send DTLS message: timeout'') \<and>
   isActive (fst (SendColors (Some ''timeout'') exampleStream Mapping.empty))"
proof -
  have a: "isActive exampleStream" by (simp add: exampleStream_def)
  show ?thesis
    using failed_write_keeps_active [OF a, of "''timeout''" Mapping.empty] a by simp
qed

text \<open>
  Claim C10. Whenever \<^verbatim>\<open>SendColors\<close> returns an error, the stream is exactly what
  it was before the call, its sequence number included; the sequence number is
  incremented when the call succeeds; and the call returns an error exactly when the
  stream is inactive or the write fails.
\<close>

theorem send_error_leaves_stream:
  "(snd (SendColors w s lc) \<noteq> None \<longrightarrow> fst (SendColors w s lc) = s) \<and>
   (snd (SendColors w s lc) = None \<longrightarrow>
      sequenceNum (fst (SendColors w s lc)) = sequenceNum s + 1) \<and>
   (snd (SendColors w s lc) \<noteq> None \<longleftrightarrow> \<not> isActive s \<or> w \<noteq> None)"
proof (cases "isActive s")
  case False
  then show ?thesis by (simp add: SendColors_inactive)
next
  case True
  then show ?thesis
    by (cases w) (simp_all add: SendColors_failed SendColors_sent)
qed

theorem send_error_leaves_stream_example:
  "snd (SendColors (Some ''timeout'') exampleStream Mapping.empty) \<noteq> None \<and>
   fst (SendColors (Some ''timeout'') exampleStream Mapping.empty) = exampleStream \<and>
   snd (SendColors None exampleStream Mapping.empty) = None \<and>
   sequenceNum (fst (SendColors None exampleStream Mapping.empty)) = 0 \<and>
   snd (SendColors None (exampleStream\<lparr>isActive := False\<rparr>) Mapping.empty) \<noteq> None \<and>
   fst (SendColors None (exampleStream\<lparr>isActive := False\<rparr>) Mapping.empty) =
     exampleStream\<lparr>isActive := False\<rparr>"
proof -
  have a: "snd (SendColors (Some ''timeout'') exampleStream Mapping.empty) \<noteq> None"
    by (simp add: SendColors_def Write_def exampleStream_def)
  have b: "snd (SendColors None exampleStream Mapping.empty) = None"
    by (simp add: SendColors_def Write_def exampleStream_def)
  have c: "snd (SendColors None (exampleStream\<lparr>isActive := False\<rparr>) Mapping.empty) \<noteq> None"
    by (simp add: SendColors_def)
  have q: "sequenceNum exampleStream + 1 = 0" by (simp add: exampleStream_def)
  show ?thesis
    using send_error_leaves_stream [of "Some ''timeout''" exampleStream Mapping.empty]
          send_error_leaves_stream [of None exampleStream Mapping.empty]
          send_error_leaves_stream [of None "exampleStream\<lparr>isActive := False\<rparr>" Mapping.empty]
          a b c q
    by simp
qed

subsection \<open>Opening the session when the server starts\<close>

lemma serve_trace:
  "\<exists>more. fst (serve out srv st tr) = tr @ more \<and> CreateDTLSStreamConnection \<notin> set more"
  by (cases "served out") (auto simp add: serve_def Let_def cleanup_def)

text \<open>
  Claim C5. When streaming was activated and the first
  \<^verbatim>\<open>createDTLSStreamConnection\<close> fails, \<^verbatim>\<open>StartWebSocketServer\<close> deactivates
  streaming, sleeps for the fixed \<^verbatim>\<open>time.Sleep(1000)\<close> and tries once more: the
  session is opened exactly twice. When the second attempt fails as well, streaming is
  deactivated again and the function returns the error
  \<open>failed to create DTLS connection: ...\<close>, with nothing else done.
\<close>

theorem retry_once:
  assumes "activate out = None"
    and "createDTLSStreamConnection (firstConnect out) a = Inl e1"
  shows "(\<forall>e2. createDTLSStreamConnection (secondConnect out) a = Inl e2 \<longrightarrow>
            StartWebSocketServer out now a p =
              ([ActivateStreaming (ID a), CreateDTLSStreamConnection, DeactivateStreaming (ID a),
                Sleep 1000, CreateDTLSStreamConnection, DeactivateStreaming (ID a)],
               Some (''failed to create DTLS connection: '' @ e2))) \<and>
         take 5 (fst (StartWebSocketServer out now a p)) =
           [ActivateStreaming (ID a), CreateDTLSStreamConnection, DeactivateStreaming (ID a),
            Sleep 1000, CreateDTLSStreamConnection] \<and>
         count_list (fst (StartWebSocketServer out now a p)) CreateDTLSStreamConnection = 2"
proof (cases "createDTLSStreamConnection (secondConnect out) a")
  case (Inl e2)
  with assms show ?thesis by (simp add: StartWebSocketServer_def)
next
  case (Inr st)
  let ?srv = "\<lparr>port = p, dtlsStream = None, area = a, isStreaming = False,
               lastMessageTime = now, lastColors = Mapping.empty\<rparr>"
  let ?tr = "[ActivateStreaming (ID a), CreateDTLSStreamConnection, DeactivateStreaming (ID a),
              Sleep 1000, CreateDTLSStreamConnection]"
  have eq: "StartWebSocketServer out now a p = serve out ?srv st ?tr"
    using assms Inr by (simp add: StartWebSocketServer_def)
  obtain more where m: "fst (serve out ?srv st ?tr) = ?tr @ more"
    and nm: "CreateDTLSStreamConnection \<notin> set more"
    using serve_trace [of out ?srv st ?tr] by blast
  have "count_list more CreateDTLSStreamConnection = 0"
    using nm by (simp add: count_list_0_iff)
  then show ?thesis using Inr eq m by simp
qed

theorem retry_once_example:
  "activate exampleOutside = None \<and>
   createDTLSStreamConnection (firstConnect exampleOutside) exampleArea =
     Inl ''DTLS handshake failed: timeout'' \<and>
   createDTLSStreamConnection (secondConnect exampleOutside) exampleArea =
     Inl ''DTLS handshake failed: timeout'' \<and>
   StartWebSocketServer exampleOutside 0 exampleArea 8080 =
     ([ActivateStreaming ''1'', CreateDTLSStreamConnection, DeactivateStreaming ''1'',
       Sleep 1000, CreateDTLSStreamConnection, DeactivateStreaming ''1''],
      Some ''failed to create DTLS connection: DTLS handshake failed: timeout'') \<and>
   count_list (fst (StartWebSocketServer exampleOutside 0 exampleArea 8080))
     CreateDTLSStreamConnection = 2"
proof -
  have a: "activate exampleOutside = None" by (simp add: exampleOutside_def)
  have b: "createDTLSStreamConnection (firstConnect exampleOutside) exampleArea =
     Inl ''DTLS handshake failed: timeout''"
    by (simp add: exampleOutside_def createDTLSStreamConnection_def)
  have c: "createDTLSStreamConnection (secondConnect exampleOutside) exampleArea =
     Inl ''DTLS handshake failed: timeout''"
    by (simp add: exampleOutside_def createDTLSStreamConnection_def)
  have i: "ID exampleArea = ''1''" by (simp add: exampleArea_def)
  show ?thesis using retry_once [OF a b, of 0 8080] a b c i by simp
qed

subsection \<open>The keeper\<close>

lemma blackColors_apply:
  "Mapping.lookup (blackColors m ls) l =
     (if l \<in> set ls then Some \<lparr>R = 0, G = 0, B = 0\<rparr> else Mapping.lookup m l)"
  by (induction ls arbitrary: m) (auto simp add: lookup_update')

lemma is_empty_eq: "Mapping.is_empty m \<Longrightarrow> m = Mapping.empty"
proof (rule mapping_eqI)
  fix x
  assume "Mapping.is_empty m"
  then have "dom (Mapping.lookup m) = {}"
    by (simp add: Mapping.is_empty_def keys_dom_lookup)
  then show "Mapping.lookup m x = Mapping.lookup Mapping.empty x"
    by (simp add: dom_def)
qed

lemma colorOf_black: "colorOf (blackColors Mapping.empty ls) l = colorOf Mapping.empty l"
  by (simp add: colorOf_def blackColors_apply)

lemma writeLight_colorOf:
  "colorOf lc l = colorOf lc' l \<Longrightarrow> writeLight lc [] l = writeLight lc' [] l"
  by (simp add: writeLight_bytes)

lemma records_cong:
  "(\<And>l. l \<in> set ls \<Longrightarrow> colorOf lc l = colorOf lc' l) \<Longrightarrow>
   map (writeLight lc []) ls = map (writeLight lc' []) ls"
  by (rule map_cong [OF refl]) (rule writeLight_colorOf)

lemma buildStreamMessage_cong:
  "(\<And>l. l \<in> set (Lights (DTLSStream.area st)) \<Longrightarrow> colorOf lc l = colorOf lc' l) \<Longrightarrow>
   buildStreamMessage st lc = buildStreamMessage st lc'"
proof -
  assume "\<And>l. l \<in> set (Lights (DTLSStream.area st)) \<Longrightarrow> colorOf lc l = colorOf lc' l"
  then have "map (writeLight lc []) (Lights (DTLSStream.area st)) =
             map (writeLight lc' []) (Lights (DTLSStream.area st))"
    by (rule records_cong)
  then show ?thesis by (simp only: buildStreamMessage_split)
qed

lemma keepAlive_frame_same:
  "buildStreamMessage st (keepAliveColors s) = buildStreamMessage st (lastColors s)"
proof (cases "Mapping.is_empty (lastColors s)")
  case True
  have "buildStreamMessage st (blackColors Mapping.empty (Lights (area s))) =
        buildStreamMessage st Mapping.empty"
    by (rule buildStreamMessage_cong) (rule colorOf_black)
  with True is_empty_eq [OF True] show ?thesis by (simp add: keepAliveColors_def)
next
  case False
  then show ?thesis by (simp add: keepAliveColors_def)
qed

lemma keepAliveTick_sent:
  assumes "dtlsStream s = Some st" and "isActive st"
  shows "keepAliveTick None now s =
           s\<lparr>dtlsStream :=
                Some (st\<lparr>conn := (conn st)\<lparr>datagrams :=
                                 datagrams (conn st) @ [buildStreamMessage st (keepAliveColors s)]\<rparr>,
                         sequenceNum := sequenceNum st + 1\<rparr>),
              lastMessageTime := now\<rparr>"
  using assms by (simp add: keepAliveTick_def SendColors_sent)

lemma black_frame:
  "i < length (Lights (DTLSStream.area st)) \<Longrightarrow>
   encodedRGB (buildStreamMessage st Mapping.empty) i = (0, 0, 0)"
  by (simp add: encodedRGB_def lightRecord_build writeLight_fields colorOf_def)

lemma readTurn_Continue:
  assumes "readTurn inb w t s0 = (Continue, r, s)"
  shows "ReadJSON inb = Inr (lastColors s)"
proof (cases "ReadJSON inb")
  case (Inl e)
  with assms show ?thesis by (simp add: readTurn_def)
next
  case (Inr msg)
  show ?thesis
  proof (cases "dtlsStream s0")
    case None
    with assms Inr show ?thesis by (simp add: readTurn_def)
  next
    case (Some st)
    obtain st' err where "SendColors w st msg = (st', err)" by (cases "SendColors w st msg")
    with assms Inr Some show ?thesis
      by (cases err) (auto simp add: readTurn_def)
  qed
qed

text \<open>
  Claim C6. On a tick with an empty \<^verbatim>\<open>lastColors\<close> (nothing forwarded yet) the
  keeper's colour map gives black to every light of the area and to nothing else; with
  a non-empty \<^verbatim>\<open>lastColors\<close> it is that map, and \<^verbatim>\<open>lastColors\<close> is the
  decoded message of the last turn that forwarded one. On a server with an active
  stream whose write succeeds, the tick hands exactly one frame to the transport, the
  encoding of the keeper's map, which in either case is also the encoding of
  \<^verbatim>\<open>lastColors\<close>; when \<^verbatim>\<open>lastColors\<close> is empty every light of the frame is
  \<open>(0, 0, 0)\<close>.
\<close>

theorem keeper_resends:
  fixes s :: WebSocketServer
  shows
  "(Mapping.is_empty (lastColors s) \<longrightarrow>
      (\<forall>l. Mapping.lookup (keepAliveColors s) l =
            (if l \<in> set (Lights (area s)) then Some \<lparr>R = 0, G = 0, B = 0\<rparr> else None))) \<and>
   (\<not> Mapping.is_empty (lastColors s) \<longrightarrow> keepAliveColors s = lastColors s) \<and>
   (\<forall>inb w t s0 r. readTurn inb w t s0 = (Continue, r, s) \<longrightarrow>
      ReadJSON inb = Inr (lastColors s)) \<and>
   (\<forall>st. dtlsStream s = Some st \<and> isActive st \<longrightarrow>
      keepAliveTick None now s =
        s\<lparr>dtlsStream :=
             Some (st\<lparr>conn := (conn st)\<lparr>datagrams :=
                              datagrams (conn st) @ [buildStreamMessage st (keepAliveColors s)]\<rparr>,
                      sequenceNum := sequenceNum st + 1\<rparr>),
           lastMessageTime := now\<rparr> \<and>
      buildStreamMessage st (keepAliveColors s) = buildStreamMessage st (lastColors s) \<and>
      (Mapping.is_empty (lastColors s) \<longrightarrow>
         (\<forall>i < length (Lights (DTLSStream.area st)).
            encodedRGB (buildStreamMessage st (keepAliveColors s)) i = (0, 0, 0))))"
proof (intro conjI allI impI)
  fix l
  assume "Mapping.is_empty (lastColors s)"
  then show "Mapping.lookup (keepAliveColors s) l =
            (if l \<in> set (Lights (area s)) then Some \<lparr>R = 0, G = 0, B = 0\<rparr> else None)"
    by (simp add: keepAliveColors_def blackColors_apply)
next
  assume "\<not> Mapping.is_empty (lastColors s)"
  then show "keepAliveColors s = lastColors s"
    by (simp add: keepAliveColors_def)
next
  fix inb w t s0 r
  assume "readTurn inb w t s0 = (Continue, r, s)"
  then show "ReadJSON inb = Inr (lastColors s)"
    by (rule readTurn_Continue)
next
  fix st :: DTLSStream
  assume "dtlsStream s = Some st \<and> isActive st"
  then show "keepAliveTick None now s =
        s\<lparr>dtlsStream :=
             Some (st\<lparr>conn := (conn st)\<lparr>datagrams :=
                              datagrams (conn st) @ [buildStreamMessage st (keepAliveColors s)]\<rparr>,
                      sequenceNum := sequenceNum st + 1\<rparr>),
           lastMessageTime := now\<rparr>"
    by (intro keepAliveTick_sent) simp_all
next
  fix st :: DTLSStream
  show "buildStreamMessage st (keepAliveColors s) = buildStreamMessage st (lastColors s)"
    by (rule keepAlive_frame_same)
next
  fix st :: DTLSStream and i
  assume e: "Mapping.is_empty (lastColors s)" and i: "i < length (Lights (DTLSStream.area st))"
  have "encodedRGB (buildStreamMessage st (lastColors s)) i = (0, 0, 0)"
    using black_frame [OF i] is_empty_eq [OF e] by simp
  then show "encodedRGB (buildStreamMessage st (keepAliveColors s)) i = (0, 0, 0)"
    by (simp only: keepAlive_frame_same)
qed

theorem keeper_resends_example:
  "Mapping.is_empty (lastColors exampleServer) \<and>
   Mapping.lookup (keepAliveColors exampleServer) ''5'' = Some \<lparr>R = 0, G = 0, B = 0\<rparr> \<and>
   Mapping.lookup (keepAliveColors exampleServer) ''6'' = Some \<lparr>R = 0, G = 0, B = 0\<rparr> \<and>
   \<not> Mapping.is_empty
       (lastColors (exampleServer\<lparr>lastColors := Mapping.update ''5'' red Mapping.empty\<rparr>)) \<and>
   keepAliveColors (exampleServer\<lparr>lastColors := Mapping.update ''5'' red Mapping.empty\<rparr>) =
     Mapping.update ''5'' red Mapping.empty \<and>
   dtlsStream exampleServer = Some exampleStream \<and> isActive exampleStream \<and>
   datagrams (conn (the (dtlsStream (keepAliveTick None 5 exampleServer)))) =
     [buildStreamMessage exampleStream (keepAliveColors exampleServer)] \<and>
   encodedRGB (buildStreamMessage exampleStream (keepAliveColors exampleServer)) 0 = (0, 0, 0) \<and>
   encodedRGB (buildStreamMessage exampleStream (keepAliveColors exampleServer)) 1 = (0, 0, 0)"
proof -
  note k = keeper_resends [of exampleServer 5]
  note k' = keeper_resends
              [of "exampleServer\<lparr>lastColors := Mapping.update ''5'' red Mapping.empty\<rparr>" 5]
  have a: "Mapping.is_empty (lastColors exampleServer)" by (simp add: exampleServer_def)
  have b: "\<not> Mapping.is_empty
              (lastColors (exampleServer\<lparr>lastColors := Mapping.update ''5'' red Mapping.empty\<rparr>))"
    by simp
  have c: "dtlsStream exampleServer = Some exampleStream" by (simp add: exampleServer_def)
  have d: "isActive exampleStream" by (simp add: exampleStream_def)
  have l: "Lights (area exampleServer) = [''5'', ''6'']"
    by (simp add: exampleServer_def exampleArea_def)
  have n: "length (Lights (DTLSStream.area exampleStream)) = 2"
    by (simp add: exampleStream_def exampleArea_def)
  have e: "datagrams (conn exampleStream) = []" by (simp add: exampleStream_def)
  from k a l
  have k1: "Mapping.lookup (keepAliveColors exampleServer) ''5'' = Some \<lparr>R = 0, G = 0, B = 0\<rparr>"
    and k2: "Mapping.lookup (keepAliveColors exampleServer) ''6'' = Some \<lparr>R = 0, G = 0, B = 0\<rparr>"
    by simp_all
  from k' b
  have k3: "keepAliveColors (exampleServer\<lparr>lastColors := Mapping.update ''5'' red Mapping.empty\<rparr>) =
              Mapping.update ''5'' red Mapping.empty"
    by simp
  from k c d have k4: "keepAliveTick None 5 exampleServer =
        exampleServer\<lparr>dtlsStream :=
             Some (exampleStream\<lparr>conn := (conn exampleStream)\<lparr>datagrams :=
                     datagrams (conn exampleStream) @
                       [buildStreamMessage exampleStream (keepAliveColors exampleServer)]\<rparr>,
                   sequenceNum := sequenceNum exampleStream + 1\<rparr>),
           lastMessageTime := 5\<rparr>"
    by blast
  from k a c d have k5: "\<forall>i < length (Lights (DTLSStream.area exampleStream)).
      encodedRGB (buildStreamMessage exampleStream (keepAliveColors exampleServer)) i = (0, 0, 0)"
    by blast
  have k6: "datagrams (conn (the (dtlsStream (keepAliveTick None 5 exampleServer)))) =
     [buildStreamMessage exampleStream (keepAliveColors exampleServer)]"
    by (simp add: k4 e)
  from k5 n have k7:
    "encodedRGB (buildStreamMessage exampleStream (keepAliveColors exampleServer)) 0 = (0, 0, 0)"
    "encodedRGB (buildStreamMessage exampleStream (keepAliveColors exampleServer)) 1 = (0, 0, 0)"
    by simp_all
  from a k1 k2 b k3 c d k6 k7 show ?thesis by (intro conjI)
qed

subsection \<open>The streaming flag of the status query\<close>

lemma reportedStreaming_flag: "reportedStreaming b = isStreaming (server b)"
  by (simp add: reportedStreaming_def handleStatus_def)

lemma SendColors_cases:
  "SendColors w st lc = (st, Some ''stream not active'') \<and> \<not> isActive st \<or>
   (\<exists>e. SendColors w st lc = (st, Some (''failed to send DTLS message: '' @ e))) \<or>
   (\<exists>st'. SendColors w st lc = (st', None))"
  by (cases "isActive st"; cases w) (simp_all add: SendColors_inactive SendColors_failed SendColors_sent)

lemma readTurn_flag:
  assumes "readTurn inb w now s = (ctl, r, s')"
  shows "isStreaming s' = isStreaming s \<and>
         (dtlsStream s \<noteq> None \<longrightarrow> dtlsStream s' \<noteq> None \<and> ctl \<noteq> Panic)"
proof (cases "ReadJSON inb")
  case (Inl e)
  with assms show ?thesis by (auto simp add: readTurn_def)
next
  case (Inr msg)
  show ?thesis
  proof (cases "dtlsStream s")
    case None
    with assms Inr show ?thesis by (auto simp add: readTurn_def)
  next
    case (Some st)
    obtain st' err where sc: "SendColors w st msg = (st', err)" by (cases "SendColors w st msg")
    with assms Inr Some show ?thesis
      by (cases err) (auto simp add: readTurn_def)
  qed
qed

lemma keepAliveTick_flag:
  "isStreaming (keepAliveTick w now s) = isStreaming s \<and>
   (dtlsStream s \<noteq> None \<longrightarrow> dtlsStream (keepAliveTick w now s) \<noteq> None)"
proof (cases "dtlsStream s")
  case None
  then show ?thesis by (simp add: keepAliveTick_def)
next
  case (Some st)
  obtain st' err where sc: "SendColors w st (keepAliveColors s) = (st', err)"
    by (cases "SendColors w st (keepAliveColors s)")
  with Some show ?thesis by (cases err) (simp_all add: keepAliveTick_def)
qed

lemma flagSound_step: "flagSound b \<Longrightarrow> flagSound (step b act)"
proof (cases act)
  case (Enter p)
  assume "flagSound b"
  with Enter show ?thesis by (auto simp add: flagSound_def)
next
  case (Turn p inb w now)
  assume fs: "flagSound b"
  show ?thesis
  proof (cases "p \<in> inLoop b")
    case False
    with fs Turn show ?thesis by simp
  next
    case True
    obtain ctl r s' where rt: "readTurn inb w now (server b) = (ctl, r, s')"
      by (cases "readTurn inb w now (server b)") auto
    from readTurn_flag [OF rt] fs
    have k: "isStreaming s' = isStreaming (server b)" "dtlsStream s' \<noteq> None" "ctl \<noteq> Panic"
      by (simp_all add: flagSound_def)
    show ?thesis
    proof (cases ctl)
      case Continue
      with Turn True rt k fs show ?thesis by (auto simp add: flagSound_def)
    next
      case Break
      with Turn True rt k fs show ?thesis by (auto simp add: flagSound_def)
    next
      case Panic
      with k show ?thesis by simp
    qed
  qed
next
  case (Tick w now)
  assume "flagSound b"
  with Tick keepAliveTick_flag [of w now "server b"] show ?thesis
    by (auto simp add: flagSound_def)
qed

lemma flagSound_run: "flagSound b \<Longrightarrow> flagSound (run b acts)"
  unfolding run_def
  by (induction acts arbitrary: b) (simp_all add: flagSound_step)

lemma flagSound_started: "flagSound (started st now a p)"
  by (simp add: flagSound_def started_def)

lemma leave_clears:
  assumes "p \<in> inLoop b" and "fst (readTurn inb w now (server b)) = Break"
  shows "\<not> isStreaming (server (step b (Turn p inb w now))) \<and>
         inLoop (step b (Turn p inb w now)) = inLoop b - {p}"
proof -
  obtain r s' where rt: "readTurn inb w now (server b) = (Break, r, s')"
    using assms(2) by (cases "readTurn inb w now (server b)") auto
  with assms(1) show ?thesis by simp
qed

lemma continue_keeps:
  assumes "q \<in> inLoop b" and "fst (readTurn inb w t (server b)) = Continue"
  shows "isStreaming (server (step b (Turn q inb w t))) = isStreaming (server b) \<and>
         inLoop (step b (Turn q inb w t)) = inLoop b"
proof -
  obtain r s' where rt: "readTurn inb w t (server b) = (Continue, r, s')"
    using assms(2) by (cases "readTurn inb w t (server b)") auto
  from readTurn_flag [OF rt] have "isStreaming s' = isStreaming (server b)" by simp
  with assms(1) rt show ?thesis by simp
qed

lemma tick_keeps:
  "isStreaming (server (step b (Tick w t))) = isStreaming (server b) \<and>
   inLoop (step b (Tick w t)) = inLoop b"
  using keepAliveTick_flag [of w t "server b"] by simp

lemma step_flag_no_enter:
  assumes "\<not> isEnter act" and "\<not> isStreaming (server b)"
  shows "\<not> isStreaming (server (step b act))"
proof (cases act)
  case (Enter q)
  with assms show ?thesis by simp
next
  case (Turn q inb w t)
  obtain ctl r s' where rt: "readTurn inb w t (server b) = (ctl, r, s')"
    by (cases "readTurn inb w t (server b)") auto
  from readTurn_flag [OF rt] have k: "isStreaming s' = isStreaming (server b)" by simp
  show ?thesis
    using Turn rt k assms(2) by (cases ctl) auto
next
  case (Tick w t)
  with assms(2) tick_keeps [of b w t] show ?thesis by simp
qed

lemma run_flag_no_enter:
  "\<not> isStreaming (server b) \<Longrightarrow> \<forall>act \<in> set acts. \<not> isEnter act \<Longrightarrow>
   \<not> isStreaming (server (run b acts))"
  unfolding run_def
proof (induction acts arbitrary: b)
  case Nil
  then show ?case by simp
next
  case (Cons act acts)
  from Cons.prems have "\<not> isStreaming (server (step b act))"
    by (intro step_flag_no_enter) simp_all
  with Cons show ?case by simp
qed

lemma loneSound_step:
  assumes "loneSound q b" and "byProducer q act"
  shows "loneSound q (step b act)"
proof (cases act)
  case (Enter p)
  with assms show ?thesis by (auto simp add: loneSound_def)
next
  case (Turn p inb w t)
  with assms(2) have p: "p = q" by simp
  show ?thesis
  proof (cases "q \<in> inLoop b")
    case False
    with assms(1) Turn p show ?thesis by simp
  next
    case True
    obtain ctl r s' where rt: "readTurn inb w t (server b) = (ctl, r, s')"
      by (cases "readTurn inb w t (server b)") auto
    from readTurn_flag [OF rt] assms(1)
    have k: "isStreaming s' = isStreaming (server b)" "dtlsStream s' \<noteq> None" "ctl \<noteq> Panic"
      by (simp_all add: loneSound_def)
    show ?thesis
      using Turn p True rt k assms(1) by (cases ctl) (auto simp add: loneSound_def)
  qed
next
  case (Tick w t)
  with assms(1) keepAliveTick_flag [of w t "server b"] show ?thesis
    by (auto simp add: loneSound_def)
qed

lemma loneSound_run:
  "loneSound q b \<Longrightarrow> \<forall>act \<in> set acts. byProducer q act \<Longrightarrow> loneSound q (run b acts)"
  unfolding run_def
  by (induction acts arbitrary: b) (simp_all add: loneSound_step)

lemma loneSound_started: "loneSound q (started st now a p)"
  by (simp add: loneSound_def started_def)

text \<open>
  Claim C7 says that with two producers connected, one of them leaving keeps the
  reported flag true. Producers 1 and 2 enter, the read of producer 1 fails and its
  handler returns: producer 2 is still in its loop and the status query reports
  \<open>streaming: false\<close>.
\<close>

theorem streaming_flag_two_producers:
  "inLoop (run (started exampleStream 0 exampleArea 8080)
             [Enter 1, Enter 2, Turn 1 (ReadFailed ''closed'') None 1]) = {2} \<and>
   handleStatus ''GET''
     (server (run (started exampleStream 0 exampleArea 8080)
                [Enter 1, Enter 2, Turn 1 (ReadFailed ''closed'') None 1])) =
     Status False ''Room'' [''5'', ''6''] 8080"
  by (simp add: run_def started_def readTurn_def ReadJSON_def handleStatus_def
      exampleArea_def insert_Diff_if)

text \<open>
  Claim C7, amended. In every run of producers and keeper on a started server, the
  status query reports \<open>streaming: true\<close> only while at least one producer is in
  its read loop, and \<open>false\<close> once all producers have left; in a run in which a single
  producer takes part it reports \<open>true\<close> exactly while that producer is in its read
  loop. The flag is one boolean that every handler writes: it is set when a producer
  enters and cleared whenever a producer's loop ends, whichever other producers remain;
  a turn that forwards a message and a tick of the keeper leave it as it is. So with
  two producers, one of them leaving makes the reported flag false although the other
  is still in its loop, and it stays false, whatever is forwarded, until a producer
  enters again.
\<close>

theorem streaming_flag:
  "(reportedStreaming (run (started st now a p) acts) \<longrightarrow>
      inLoop (run (started st now a p) acts) \<noteq> {}) \<and>
   (inLoop (run (started st now a p) acts) = {} \<longrightarrow>
      \<not> reportedStreaming (run (started st now a p) acts)) \<and>
   (\<forall>b q inb w t. q \<in> inLoop b \<and> fst (readTurn inb w t (server b)) = Break \<longrightarrow>
      \<not> reportedStreaming (step b (Turn q inb w t)) \<and>
      inLoop (step b (Turn q inb w t)) = inLoop b - {q}) \<and>
   (\<forall>b q. q \<notin> inLoop b \<longrightarrow> reportedStreaming (step b (Enter q))) \<and>
   (\<forall>b q. q \<notin> inLoop b \<longrightarrow> inLoop (step b (Enter q)) = insert q (inLoop b)) \<and>
   (\<forall>b q inb w t. q \<in> inLoop b \<and> fst (readTurn inb w t (server b)) = Continue \<longrightarrow>
      reportedStreaming (step b (Turn q inb w t)) = reportedStreaming b \<and>
      inLoop (step b (Turn q inb w t)) = inLoop b) \<and>
   (\<forall>b w t. reportedStreaming (step b (Tick w t)) = reportedStreaming b \<and>
      inLoop (step b (Tick w t)) = inLoop b) \<and>
   (\<forall>b q inb w t. q \<notin> inLoop b \<longrightarrow> step b (Turn q inb w t) = b) \<and>
   (\<forall>b q. q \<in> inLoop b \<longrightarrow> step b (Enter q) = b) \<and>
   (\<forall>b bs. \<not> reportedStreaming b \<and> (\<forall>act \<in> set bs. \<not> isEnter act) \<longrightarrow>
      \<not> reportedStreaming (run b bs)) \<and>
   (\<forall>q. (\<forall>act \<in> set acts. byProducer q act) \<longrightarrow>
      (reportedStreaming (run (started st now a p) acts) \<longleftrightarrow>
         q \<in> inLoop (run (started st now a p) acts)) \<and>
      inLoop (run (started st now a p) acts) \<subseteq> {q})"
proof -
  have "flagSound (run (started st now a p) acts)"
    by (rule flagSound_run) (rule flagSound_started)
  then have inv: "reportedStreaming (run (started st now a p) acts) \<longrightarrow>
      inLoop (run (started st now a p) acts) \<noteq> {}"
    by (simp add: flagSound_def reportedStreaming_flag)
  have enter: "\<forall>b q. q \<notin> inLoop b \<longrightarrow> reportedStreaming (step b (Enter q))"
    by (simp add: reportedStreaming_flag)
  have enter': "\<forall>b q. q \<notin> inLoop b \<longrightarrow> inLoop (step b (Enter q)) = insert q (inLoop b)"
    by simp
  have leave: "\<forall>b q inb w t. q \<in> inLoop b \<and> fst (readTurn inb w t (server b)) = Break \<longrightarrow>
      \<not> reportedStreaming (step b (Turn q inb w t)) \<and>
      inLoop (step b (Turn q inb w t)) = inLoop b - {q}"
    using leave_clears by (simp only: reportedStreaming_flag) blast
  have cont: "\<forall>b q inb w t. q \<in> inLoop b \<and> fst (readTurn inb w t (server b)) = Continue \<longrightarrow>
      reportedStreaming (step b (Turn q inb w t)) = reportedStreaming b \<and>
      inLoop (step b (Turn q inb w t)) = inLoop b"
    using continue_keeps by (simp only: reportedStreaming_flag) blast
  have tick: "\<forall>b w t. reportedStreaming (step b (Tick w t)) = reportedStreaming b \<and>
      inLoop (step b (Tick w t)) = inLoop b"
    using tick_keeps by (simp only: reportedStreaming_flag) blast
  have noop1: "\<forall>b q inb w t. q \<notin> inLoop b \<longrightarrow> step b (Turn q inb w t) = b"
    by simp
  have noop2: "\<forall>b q. q \<in> inLoop b \<longrightarrow> step b (Enter q) = b"
    by simp
  have stays: "\<forall>b bs. \<not> reportedStreaming b \<and> (\<forall>act \<in> set bs. \<not> isEnter act) \<longrightarrow>
      \<not> reportedStreaming (run b bs)"
    using run_flag_no_enter by (simp only: reportedStreaming_flag) blast
  have lone: "\<forall>q. (\<forall>act \<in> set acts. byProducer q act) \<longrightarrow>
      (reportedStreaming (run (started st now a p) acts) \<longleftrightarrow>
         q \<in> inLoop (run (started st now a p) acts)) \<and>
      inLoop (run (started st now a p) acts) \<subseteq> {q}"
  proof (intro allI impI)
    fix q
    assume "\<forall>act \<in> set acts. byProducer q act"
    then have "loneSound q (run (started st now a p) acts)"
      by (intro loneSound_run loneSound_started)
    then show "(reportedStreaming (run (started st now a p) acts) \<longleftrightarrow>
         q \<in> inLoop (run (started st now a p) acts)) \<and>
      inLoop (run (started st now a p) acts) \<subseteq> {q}"
      by (simp add: loneSound_def reportedStreaming_flag)
  qed
  from inv have inv': "inLoop (run (started st now a p) acts) = {} \<longrightarrow>
      \<not> reportedStreaming (run (started st now a p) acts)"
    by blast
  from inv inv' leave enter enter' cont tick noop1 noop2 stays lone
  show ?thesis by (intro conjI)
qed

text \<open>
  One producer that enters, forwards a message and is still connected at a tick is
  reported as streaming; after producer 1 of two has left, a message forwarded by
  producer 2 and a tick leave the flag false, and producer 3 entering sets it.
\<close>

theorem streaming_flag_example:
  "reportedStreaming (run (started exampleStream 0 exampleArea 8080) [Enter 1]) \<and>
   inLoop (run (started exampleStream 0 exampleArea 8080) [Enter 1]) \<noteq> {} \<and>
   inLoop (run (started exampleStream 0 exampleArea 8080)
             [Enter 1, Turn 1 (ReadFailed ''closed'') None 3]) = {} \<and>
   \<not> reportedStreaming (run (started exampleStream 0 exampleArea 8080)
                          [Enter 1, Turn 1 (ReadFailed ''closed'') None 3]) \<and>
   byProducer 1 (Enter 1) \<and> byProducer 1 (Turn 1 (JSONText [(''5'', 255, 0, 0)]) None 7) \<and>
   byProducer 1 (Tick None 9) \<and>
   inLoop (run (started exampleStream 0 exampleArea 8080)
             [Enter 1, Turn 1 (JSONText [(''5'', 255, 0, 0)]) None 7, Tick None 9]) = {1} \<and>
   reportedStreaming (run (started exampleStream 0 exampleArea 8080)
                        [Enter 1, Turn 1 (JSONText [(''5'', 255, 0, 0)]) None 7, Tick None 9]) \<and>
   inLoop (run (started exampleStream 0 exampleArea 8080)
             [Enter 1, Enter 2, Turn 1 (ReadFailed ''closed'') None 3]) = {2} \<and>
   \<not> reportedStreaming (run (started exampleStream 0 exampleArea 8080)
                          [Enter 1, Enter 2, Turn 1 (ReadFailed ''closed'') None 3]) \<and>
   \<not> isEnter (Turn 2 (JSONText [(''5'', 255, 0, 0)]) None 7) \<and> \<not> isEnter (Tick None 9) \<and>
   \<not> reportedStreaming
       (run (run (started exampleStream 0 exampleArea 8080)
                 [Enter 1, Enter 2, Turn 1 (ReadFailed ''closed'') None 3])
          [Turn 2 (JSONText [(''5'', 255, 0, 0)]) None 7, Tick None 9]) \<and>
   reportedStreaming
     (step (run (started exampleStream 0 exampleArea 8080)
                [Enter 1, Enter 2, Turn 1 (ReadFailed ''closed'') None 3]) (Enter 3))"
proof -
  let ?b0 = "started exampleStream 0 exampleArea 8080"
  let ?fwd = "Turn 1 (JSONText [(''5'', 255, 0, 0)]) None 7"
  let ?fwd2 = "Turn 2 (JSONText [(''5'', 255, 0, 0)]) None 7"
  let ?gone = "Turn 1 (ReadFailed ''closed'') None 3"
  note k1 = streaming_flag [of exampleStream 0 exampleArea 8080 "[Enter 1]"]
  note k2 = streaming_flag [of exampleStream 0 exampleArea 8080 "[Enter 1, ?gone]"]
  note k3 = streaming_flag [of exampleStream 0 exampleArea 8080 "[Enter 1, ?fwd, Tick None 9]"]
  from k1 have only: "reportedStreaming (run ?b0 [Enter 1]) \<longrightarrow> inLoop (run ?b0 [Enter 1]) \<noteq> {}"
    by (elim conjE)
  from k2 have once: "inLoop (run ?b0 [Enter 1, ?gone]) = {} \<longrightarrow>
      \<not> reportedStreaming (run ?b0 [Enter 1, ?gone])"
    by (elim conjE)
  from k1 have leave: "\<forall>b q inb w t. q \<in> inLoop b \<and> fst (readTurn inb w t (server b)) = Break \<longrightarrow>
      \<not> reportedStreaming (step b (Turn q inb w t)) \<and>
      inLoop (step b (Turn q inb w t)) = inLoop b - {q}"
    by (elim conjE)
  from k1 have enter: "\<forall>b q. q \<notin> inLoop b \<longrightarrow> reportedStreaming (step b (Enter q))"
    by (elim conjE)
  from k1 have stays: "\<forall>b bs. \<not> reportedStreaming b \<and> (\<forall>act \<in> set bs. \<not> isEnter act) \<longrightarrow>
      \<not> reportedStreaming (run b bs)"
    by (elim conjE)
  from k3 have lone: "\<forall>q. (\<forall>act \<in> set [Enter 1, ?fwd, Tick None 9]. byProducer q act) \<longrightarrow>
      (reportedStreaming (run ?b0 [Enter 1, ?fwd, Tick None 9]) \<longleftrightarrow>
         q \<in> inLoop (run ?b0 [Enter 1, ?fwd, Tick None 9])) \<and>
      inLoop (run ?b0 [Enter 1, ?fwd, Tick None 9]) \<subseteq> {q}"
    by (elim conjE)
  have a: "reportedStreaming (run ?b0 [Enter 1])"
    by (simp add: reportedStreaming_flag run_def started_def)
  have b: "inLoop (run ?b0 [Enter 1, ?gone]) = {}"
    by (simp add: run_def started_def readTurn_def ReadJSON_def)
  from only a have c: "inLoop (run ?b0 [Enter 1]) \<noteq> {}" by simp
  from once b have d: "\<not> reportedStreaming (run ?b0 [Enter 1, ?gone])" by simp
  have e: "\<forall>act \<in> set [Enter 1, ?fwd, Tick None 9]. byProducer 1 act" by simp
  have f: "inLoop (run ?b0 [Enter 1, ?fwd, Tick None 9]) = {1}"
    by (simp add: run_def started_def readTurn_def ReadJSON_def decodeUint8_def SendColors_def
        Write_def exampleStream_def Let_def)
  from lone [THEN spec, THEN mp, OF e] f
  have g: "reportedStreaming (run ?b0 [Enter 1, ?fwd, Tick None 9])" by simp
  have h: "inLoop (run ?b0 [Enter 1, Enter 2, ?gone]) = {2}"
    by (simp add: run_def started_def readTurn_def ReadJSON_def insert_Diff_if)
  have h1: "run ?b0 [Enter 1, Enter 2, ?gone] = step (run ?b0 [Enter 1, Enter 2]) ?gone"
    by (simp add: run_def)
  have h2: "1 \<in> inLoop (run ?b0 [Enter 1, Enter 2]) \<and>
    fst (readTurn (ReadFailed ''closed'') None 3 (server (run ?b0 [Enter 1, Enter 2]))) = Break"
    by (simp add: run_def started_def readTurn_def ReadJSON_def)
  from leave [rule_format, OF h2]
  have "\<not> reportedStreaming (step (run ?b0 [Enter 1, Enter 2]) ?gone)" by (elim conjE)
  then have i: "\<not> reportedStreaming (run ?b0 [Enter 1, Enter 2, ?gone])" unfolding h1 .
  have j: "\<forall>act \<in> set [?fwd2, Tick None 9]. \<not> isEnter act" by simp
  from stays [THEN spec, THEN spec, THEN mp, OF conjI, OF i j]
  have l: "\<not> reportedStreaming (run (run ?b0 [Enter 1, Enter 2, ?gone]) [?fwd2, Tick None 9])" .
  have n: "3 \<notin> inLoop (run ?b0 [Enter 1, Enter 2, ?gone])" by (simp only: h) simp
  from enter [rule_format, OF n]
  have m: "reportedStreaming (step (run ?b0 [Enter 1, Enter 2, ?gone]) (Enter 3))" .
  have e': "byProducer 1 (Enter 1)" "byProducer 1 ?fwd" "byProducer 1 (Tick None 9)"
    by simp_all
  have j': "\<not> isEnter ?fwd2" "\<not> isEnter (Tick None 9)" by simp_all
  from a c b d e' f g h i j' l m show ?thesis by (intro conjI)
qed

subsection \<open>Channel values outside 0 to 255\<close>

lemma decodeUint8_ok: "channelOK n \<Longrightarrow> decodeUint8 n = Inr (word_of_int n)"
  by (simp add: decodeUint8_def channelOK_def)

lemma decodeUint8_bad: "\<not> channelOK n \<Longrightarrow> \<exists>e. decodeUint8 n = Inl e"
  by (simp add: decodeUint8_def channelOK_def)

lemma decodeLights_inRange: "inRange lights \<Longrightarrow> decodeLights m lights = Inr (stored m lights)"
  by (induction m lights rule: decodeLights.induct) (simp_all add: decodeUint8_ok)

lemma decodeLights_outOfRange: "\<not> inRange lights \<Longrightarrow> \<exists>e. decodeLights m lights = Inl e"
proof (induction lights arbitrary: m)
  case Nil
  then show ?case by simp
next
  case (Cons x rest)
  obtain l r g b where x: "x = (l, r, g, b)" by (cases x)
  show ?case
  proof (cases "channelOK r \<and> channelOK g \<and> channelOK b")
    case True
    with Cons.prems x have "\<not> inRange rest" by simp
    from Cons.IH [OF this] True x show ?thesis by (simp add: decodeUint8_ok)
  next
    case False
    then show ?thesis
      using decodeUint8_bad [of r] decodeUint8_bad [of g] decodeUint8_bad [of b] x
      by (auto split: sum.splits)
  qed
qed

lemma uint_channel: "channelOK n \<Longrightarrow> uint (word_of_int n :: byte) = n"
  by (simp add: channelOK_def uint_word_of_int take_bit_int_eq_self)

text \<open>
  Claim C8 says that a message with a channel value outside 0 to 255 is decoded and
  forwarded with the value reduced modulo 256. The messages with \<open>r = 256\<close> and with
  \<open>r = -1\<close> are not forwarded: the read returns an error, the loop ends and the server,
  its stream included, is what it was. With \<open>r = 0\<close>, which is 256 modulo 256, the
  same turn carries on.
\<close>

theorem out_of_range_not_forwarded:
  "readTurn (JSONText [(''5'', 256, 0, 0)]) None 1 exampleServer = (Break, None, exampleServer) \<and>
   readTurn (JSONText [(''5'', -1, 0, 0)]) None 1 exampleServer = (Break, None, exampleServer) \<and>
   dtlsStream exampleServer = Some exampleStream \<and> isActive exampleStream \<and>
   fst (readTurn (JSONText [(''5'', 0, 0, 0)]) None 1 exampleServer) = Continue"
  by (simp add: readTurn_def ReadJSON_def decodeUint8_def exampleServer_def exampleStream_def
      SendColors_def Write_def Let_def)

text \<open>
  Claim C8, amended. A producer message with a channel value outside 0 to 255 is
  rejected by the decoder, since the fields are \<^verbatim>\<open>uint8\<close>: the read fails, nothing is
  forwarded and that producer's loop ends, with no error object sent back. A message
  whose channel values all lie within 0 to 255 is decoded with every value unchanged
  and, on an active stream whose write succeeds, forwarded and kept as the last colours.
\<close>

theorem out_of_range_rejected:
  "(\<not> inRange lights \<longrightarrow> readTurn (JSONText lights) w now s = (Break, None, s)) \<and>
   (inRange lights \<longrightarrow> ReadJSON (JSONText lights) = Inr (stored Mapping.empty lights)) \<and>
   (\<forall>n. channelOK n \<longrightarrow> decodeUint8 n = Inr (word_of_int n) \<and> uint (word_of_int n :: byte) = n) \<and>
   (\<forall>st. inRange lights \<and> dtlsStream s = Some st \<and> isActive st \<longrightarrow>
      readTurn (JSONText lights) None now s =
        (Continue, None,
         s\<lparr>dtlsStream :=
              Some (st\<lparr>conn := (conn st)\<lparr>datagrams :=
                       datagrams (conn st) @ [buildStreamMessage st (stored Mapping.empty lights)]\<rparr>,
                     sequenceNum := sequenceNum st + 1\<rparr>),
            lastMessageTime := now, lastColors := stored Mapping.empty lights\<rparr>))"
proof (intro conjI allI impI)
  assume "\<not> inRange lights"
  then obtain e where "decodeLights Mapping.empty lights = Inl e"
    using decodeLights_outOfRange by blast
  then show "readTurn (JSONText lights) w now s = (Break, None, s)"
    by (simp add: readTurn_def ReadJSON_def)
next
  assume "inRange lights"
  then show "ReadJSON (JSONText lights) = Inr (stored Mapping.empty lights)"
    by (simp add: ReadJSON_def decodeLights_inRange)
next
  fix n assume "channelOK n"
  then show "decodeUint8 n = Inr (word_of_int n)" by (rule decodeUint8_ok)
next
  fix n assume "channelOK n"
  then show "uint (word_of_int n :: byte) = n" by (rule uint_channel)
next
  fix st :: DTLSStream
  assume h: "inRange lights \<and> dtlsStream s = Some st \<and> isActive st"
  then have "ReadJSON (JSONText lights) = Inr (stored Mapping.empty lights)"
    by (simp add: ReadJSON_def decodeLights_inRange)
  with h show "readTurn (JSONText lights) None now s =
        (Continue, None,
         s\<lparr>dtlsStream :=
              Some (st\<lparr>conn := (conn st)\<lparr>datagrams :=
                       datagrams (conn st) @ [buildStreamMessage st (stored Mapping.empty lights)]\<rparr>,
                     sequenceNum := sequenceNum st + 1\<rparr>),
            lastMessageTime := now, lastColors := stored Mapping.empty lights\<rparr>)"
    by (simp add: readTurn_def SendColors_sent Let_def)
qed

theorem out_of_range_rejected_example:
  "\<not> inRange [(''5'', 256, 0, 0)] \<and>
   readTurn (JSONText [(''5'', 256, 0, 0)]) None 7 exampleServer = (Break, None, exampleServer) \<and>
   inRange [(''5'', 255, 0, 0)] \<and>
   ReadJSON (JSONText [(''5'', 255, 0, 0)]) = Inr (Mapping.update ''5'' red Mapping.empty) \<and>
   dtlsStream exampleServer = Some exampleStream \<and> isActive exampleStream \<and>
   fst (readTurn (JSONText [(''5'', 255, 0, 0)]) None 7 exampleServer) = Continue \<and>
   lastColors (snd (snd (readTurn (JSONText [(''5'', 255, 0, 0)]) None 7 exampleServer))) =
     (Mapping.update ''5'' red Mapping.empty) \<and>
   channelOK 255 \<and> uint (word_of_int 255 :: byte) = 255"
proof -
  note k = out_of_range_rejected [of "[(''5'', 256, 0, 0)]" None 7 exampleServer]
  note k' = out_of_range_rejected [of "[(''5'', 255, 0, 0)]" None 7 exampleServer]
  have a: "\<not> inRange [(''5'', 256, 0, 0)]" by (simp add: channelOK_def)
  have b: "inRange [(''5'', 255, 0, 0)]" by (simp add: channelOK_def)
  have c: "dtlsStream exampleServer = Some exampleStream" by (simp add: exampleServer_def)
  have d: "isActive exampleStream" by (simp add: exampleStream_def)
  have e: "channelOK 255" by (simp add: channelOK_def)
  have st: "stored Mapping.empty [(''5'', 255, 0, 0)] = (Mapping.update ''5'' red Mapping.empty)" by (simp add: red_def)
  from k a have k1:
    "readTurn (JSONText [(''5'', 256, 0, 0)]) None 7 exampleServer = (Break, None, exampleServer)"
    by blast
  from k' b st have k2: "ReadJSON (JSONText [(''5'', 255, 0, 0)]) = Inr (Mapping.update ''5'' red Mapping.empty)"
    by simp
  from k' b c d have k3: "readTurn (JSONText [(''5'', 255, 0, 0)]) None 7 exampleServer =
        (Continue, None,
         exampleServer\<lparr>dtlsStream :=
              Some (exampleStream\<lparr>conn := (conn exampleStream)\<lparr>datagrams :=
                       datagrams (conn exampleStream) @
                         [buildStreamMessage exampleStream (stored Mapping.empty [(''5'', 255, 0, 0)])]\<rparr>,
                     sequenceNum := sequenceNum exampleStream + 1\<rparr>),
            lastMessageTime := 7, lastColors := stored Mapping.empty [(''5'', 255, 0, 0)]\<rparr>)"
    by blast
  have k4: "fst (readTurn (JSONText [(''5'', 255, 0, 0)]) None 7 exampleServer) = Continue"
    by (simp add: k3)
  have k5: "lastColors (snd (snd (readTurn (JSONText [(''5'', 255, 0, 0)]) None 7 exampleServer))) =
     (Mapping.update ''5'' red Mapping.empty)"
    by (simp add: k3 red_def)
  from k' e have k6: "uint (word_of_int 255 :: byte) = 255" by blast
  from a k1 b k2 c d k4 k5 e k6 show ?thesis by (intro conjI)
qed

subsection \<open>The identifier field\<close>

lemma digit_not_space: "isDigit c \<Longrightarrow> space_width (c # cs) = 0 \<and> c \<noteq> CHR 0x0A"
  by (auto simp add: isDigit_def decimalDigits_def)

lemma SkipSpace_digit: "isDigit c \<Longrightarrow> SkipSpace 0 (c # cs) = Inr (0, c # cs)"
  using digit_not_space [of c cs] by (simp add: SkipSpace.simps [of 0 "c # cs"] hugeWid_def)

lemma SkipSpace_Nil: "SkipSpace n [] = Inr (n, [])"
  by (simp add: SkipSpace.simps [of n "[]"])

lemma takeWhile_prefix:
  assumes "\<forall>c \<in> set ds. isDigit c" and "rest = [] \<or> \<not> isDigit (hd rest)"
  shows "takeWhile isDigit (ds @ rest) = ds"
proof -
  have "takeWhile isDigit rest = []"
    using assms(2) by (cases rest) auto
  with assms(1) show ?thesis by (simp add: takeWhile_append2)
qed

lemma scanUint_prefix:
  assumes "numericID ds" and "length ds \<le> hugeWid" and "rest = [] \<or> \<not> isDigit (hd rest)"
  shows "scanUint 0 (ds @ rest) =
           (if decimalValue ds < 2 ^ 16 then Inr (decimalValue ds)
            else if decimalValue ds < 2 ^ 64 then Inl ErrUnsignedOverflow
            else Inl ErrValueOutOfRange)"
proof -
  from assms(1) obtain c cs where ds: "ds = c # cs" and c: "isDigit c"
    and all: "\<forall>c \<in> set ds. isDigit c"
    by (cases ds) (auto simp add: numericID_def)
  have skip: "SkipSpace 0 (ds @ rest) = Inr (0, ds @ rest)"
    using SkipSpace_digit [OF c, of "cs @ rest"] ds by simp
  have tok: "take (hugeWid - 0) (takeWhile isDigit (ds @ rest)) = ds"
    using assms(2) takeWhile_prefix [OF all assms(3)] by simp
  have pos: "0 < hugeWid" by (simp add: hugeWid_def)
  have hd: "ds @ rest \<noteq> []" "isDigit (hd (ds @ rest))" using ds c by simp_all
  show ?thesis
    unfolding scanUint_def skip using tok pos hd
    by (simp add: ParseUint_def)
qed

lemma Sscanf_d_prefix:
  assumes "numericID ds" and "length ds \<le> hugeWid" and "rest = [] \<or> \<not> isDigit (hd rest)"
  shows "decimalValue ds < 2 ^ 16 \<longrightarrow> Sscanf_d (ds @ rest) v = (of_nat (decimalValue ds), None)"
    and "2 ^ 16 \<le> decimalValue ds \<longrightarrow>
           fst (Sscanf_d (ds @ rest) v) = v \<and> snd (Sscanf_d (ds @ rest) v) \<noteq> None"
proof -
  from assms(1) obtain c cs where ds: "ds = c # cs" and c: "isDigit c"
    by (cases ds) (auto simp add: numericID_def)
  have skip: "SkipSpace 0 (ds @ rest) = Inr (0, ds @ rest)"
    using SkipSpace_digit [OF c, of "cs @ rest"] ds by simp
  show "decimalValue ds < 2 ^ 16 \<longrightarrow> Sscanf_d (ds @ rest) v = (of_nat (decimalValue ds), None)"
    unfolding Sscanf_d_def skip using scanUint_prefix [OF assms] by simp
  show "2 ^ 16 \<le> decimalValue ds \<longrightarrow>
           fst (Sscanf_d (ds @ rest) v) = v \<and> snd (Sscanf_d (ds @ rest) v) \<noteq> None"
    unfolding Sscanf_d_def skip using scanUint_prefix [OF assms] by simp
qed

lemma Sscanf_d_error: "snd (Sscanf_d l v) \<noteq> None \<Longrightarrow> fst (Sscanf_d l v) = v"
  by (auto simp add: Sscanf_d_def split: sum.splits prod.splits)

lemma Sscanf_d_no_number:
  assumes "l = [] \<or> (\<not> isDigit (hd l) \<and> space_width l = 0)"
  shows "fst (Sscanf_d l v) = v \<and> snd (Sscanf_d l v) \<noteq> None"
proof (cases l)
  case Nil
  then show ?thesis by (simp add: Sscanf_d_def SkipSpace_Nil scanUint_def)
next
  case (Cons c cs)
  with assms have nd: "\<not> isDigit c" and ns: "space_width (c # cs) = 0" by simp_all
  show ?thesis
  proof (cases "c = CHR 0x0A")
    case True
    then have "SkipSpace 0 (c # cs) = Inl ErrUnexpectedNewline"
      by (subst SkipSpace.simps) (simp add: hugeWid_def)
    then have "SkipSpace 0 l = Inl ErrUnexpectedNewline"
      using Cons by simp
    then show ?thesis by (simp add: Sscanf_d_def)
  next
    case False
    then have "SkipSpace 0 (c # cs) = Inr (0, c # cs)"
      using ns by (subst SkipSpace.simps) (simp add: hugeWid_def)
    then have "SkipSpace 0 l = Inr (0, l)"
      using Cons by simp
    then show ?thesis using Cons nd by (simp add: Sscanf_d_def scanUint_def hugeWid_def)
  qed
qed

lemma writeLight_id: "beUint16 (writeLight lc [] l) (Suc 0) = fst (Sscanf_d l 0)"
  using writeLight_fields(1) [of lc l] by simp

lemma encodedID_build:
  "i < length (Lights (DTLSStream.area s)) \<Longrightarrow>
   encodedID (buildStreamMessage s lc) i = unat (fst (Sscanf_d (Lights (DTLSStream.area s) ! i) 0))"
  by (simp add: encodedID_def lightRecord_build writeLight_id)

text \<open>
  Claim C9 says that every light ID is written as the ID parsed as an unsigned decimal
  integer and that a non-numeric ID yields 0. The ID \<open>12abc\<close> is not numeric and its
  field holds 12, the value of its leading digits; the ID \<open>70000\<close> is numeric and its
  field holds 0, since 70000 does not fit 16 bits.
\<close>

theorem light_id_prefix_parsed:
  "Lights (DTLSStream.area oddStream) ! 0 = ''12abc'' \<and> \<not> numericID ''12abc'' \<and>
   encodedID (buildStreamMessage oddStream Mapping.empty) 0 = 12 \<and>
   Lights (DTLSStream.area oddStream) ! 1 = ''70000'' \<and> numericID ''70000'' \<and>
   decimalValue ''70000'' = 70000 \<and>
   encodedID (buildStreamMessage oddStream Mapping.empty) 1 = 0"
  by (simp add: oddStream_def exampleStream_def exampleArea_def numericID_def isDigit_def
      decimalDigits_def decimalValue_def digitVal_def encodedID_def lightRecord_def
      buildStreamMessage_def WriteString_def WriteByte_def WriteBigEndian16_def writeLight_def
      Let_def beUint16_def Sscanf_d_def scanUint_def SkipSpace.simps ParseUint_def hugeWid_def)

text \<open>
  Claim C9, amended. For every light of the area the 2-byte big-endian identifier field
  holds what \<^verbatim>\<open>fmt.Sscanf(lightID, "%d", &lightIDNum)\<close> leaves in a \<^verbatim>\<open>uint16\<close>
  that was 0, which is 0 whenever the scan reports an error. For an ID that starts
  with a run of at most \<open>hugeWid\<close> decimal digits, ended by the end of the ID or by a
  character that is not a decimal digit, the field holds the decimal value of that run
  when it is below 65536, and 0 when it is 65536 or more; an ID of decimal digits only
  is the case of a run that ends with the ID. For an ID that is empty or whose first
  character is neither a decimal digit nor a space rune that the scanner skips, the
  field holds 0. Encoding never fails: whatever the IDs, the record has its 9 bytes and
  the frame its \<open>16 + 9 * n\<close>.
\<close>

theorem light_id_field:
  assumes "i < length (Lights (DTLSStream.area s))" and "l = Lights (DTLSStream.area s) ! i"
  shows "encodedID (buildStreamMessage s lc) i = unat (fst (Sscanf_d l 0)) \<and>
         (numericID l \<and> length l \<le> hugeWid \<and> decimalValue l < 65536 \<longrightarrow>
            encodedID (buildStreamMessage s lc) i = decimalValue l) \<and>
         (numericID l \<and> length l \<le> hugeWid \<and> 65536 \<le> decimalValue l \<longrightarrow>
            encodedID (buildStreamMessage s lc) i = 0) \<and>
         (l = [] \<or> (\<not> isDigit (hd l) \<and> space_width l = 0) \<longrightarrow>
            encodedID (buildStreamMessage s lc) i = 0) \<and>
         (snd (Sscanf_d l 0) \<noteq> None \<longrightarrow> encodedID (buildStreamMessage s lc) i = 0) \<and>
         length (lightRecord (buildStreamMessage s lc) i) = 9 \<and>
         length (buildStreamMessage s lc) = 16 + 9 * length (Lights (DTLSStream.area s)) \<and>
         (\<forall>ds rest. l = ds @ rest \<and> numericID ds \<and> length ds \<le> hugeWid \<and>
                    (rest = [] \<or> \<not> isDigit (hd rest)) \<and> decimalValue ds < 65536 \<longrightarrow>
            encodedID (buildStreamMessage s lc) i = decimalValue ds) \<and>
         (\<forall>ds rest. l = ds @ rest \<and> numericID ds \<and> length ds \<le> hugeWid \<and>
                    (rest = [] \<or> \<not> isDigit (hd rest)) \<and> 65536 \<le> decimalValue ds \<longrightarrow>
            encodedID (buildStreamMessage s lc) i = 0)"
proof -
  have e: "encodedID (buildStreamMessage s lc) i = unat (fst (Sscanf_d l 0))"
    using assms by (simp add: encodedID_build)
  have p: "encodedID (buildStreamMessage s lc) i = decimalValue ds"
    if "l = ds @ rest \<and> numericID ds \<and> length ds \<le> hugeWid \<and>
        (rest = [] \<or> \<not> isDigit (hd rest)) \<and> decimalValue ds < 65536" for ds rest
  proof -
    from that have "Sscanf_d (ds @ rest) 0 = (of_nat (decimalValue ds), None)"
      using Sscanf_d_prefix(1) [of ds rest 0] by simp
    with that show ?thesis by (simp add: e unat_of_nat)
  qed
  have q: "encodedID (buildStreamMessage s lc) i = 0"
    if "l = ds @ rest \<and> numericID ds \<and> length ds \<le> hugeWid \<and>
        (rest = [] \<or> \<not> isDigit (hd rest)) \<and> 65536 \<le> decimalValue ds" for ds rest
  proof -
    from that have "fst (Sscanf_d (ds @ rest) 0) = 0"
      using Sscanf_d_prefix(2) [of ds rest 0] by simp
    with that show ?thesis by (simp add: e)
  qed
  have a: "encodedID (buildStreamMessage s lc) i = decimalValue l"
    if "numericID l \<and> length l \<le> hugeWid \<and> decimalValue l < 65536"
    using p [of l "[]"] that by simp
  have b: "encodedID (buildStreamMessage s lc) i = 0"
    if "numericID l \<and> length l \<le> hugeWid \<and> 65536 \<le> decimalValue l"
    using q [of l "[]"] that by simp
  have c: "encodedID (buildStreamMessage s lc) i = 0"
    if "l = [] \<or> (\<not> isDigit (hd l) \<and> space_width l = 0)"
    using Sscanf_d_no_number [OF that, of 0] by (simp add: e)
  have d: "encodedID (buildStreamMessage s lc) i = 0" if "snd (Sscanf_d l 0) \<noteq> None"
    using Sscanf_d_error [OF that] by (simp add: e)
  have f: "length (lightRecord (buildStreamMessage s lc) i) = 9"
    using assms(1) by (simp add: lightRecord_build length_writeLight)
  have g: "length (buildStreamMessage s lc) = 16 + 9 * length (Lights (DTLSStream.area s))"
    by (simp add: buildStreamMessage_split length_concat_records length_streamHeader)
  from e a b c d f g p q show ?thesis by blast
qed

text \<open>
  The IDs \<open>5\<close>, \<open>12abc\<close>, \<open>70000\<close>, \<open>70000abc\<close> and \<open>lamp\<close> are encoded as 5, 12, 0, 0
  and 0.
\<close>

theorem light_id_field_example:
  "0 < length (Lights (DTLSStream.area exampleStream)) \<and>
   ''5'' = Lights (DTLSStream.area exampleStream) ! 0 \<and>
   numericID ''5'' \<and> length ''5'' \<le> hugeWid \<and> decimalValue ''5'' < 65536 \<and>
   encodedID (buildStreamMessage exampleStream Mapping.empty) 0 = 5 \<and>
   0 < length (Lights (DTLSStream.area oddStream)) \<and>
   ''12abc'' = Lights (DTLSStream.area oddStream) ! 0 \<and>
   ''12abc'' = ''12'' @ ''abc'' \<and> numericID ''12'' \<and> length ''12'' \<le> hugeWid \<and>
   \<not> isDigit (hd ''abc'') \<and> decimalValue ''12'' < 65536 \<and>
   encodedID (buildStreamMessage oddStream Mapping.empty) 0 = 12 \<and>
   1 < length (Lights (DTLSStream.area oddStream)) \<and>
   ''70000'' = Lights (DTLSStream.area oddStream) ! 1 \<and>
   numericID ''70000'' \<and> length ''70000'' \<le> hugeWid \<and> 65536 \<le> decimalValue ''70000'' \<and>
   encodedID (buildStreamMessage oddStream Mapping.empty) 1 = 0 \<and>
   2 < length (Lights (DTLSStream.area oddStream)) \<and>
   ''lamp'' = Lights (DTLSStream.area oddStream) ! 2 \<and>
   \<not> isDigit (hd ''lamp'') \<and> space_width ''lamp'' = 0 \<and>
   snd (Sscanf_d ''lamp'' 0) \<noteq> None \<and>
   encodedID (buildStreamMessage oddStream Mapping.empty) 2 = 0 \<and>
   3 < length (Lights (DTLSStream.area oddStream)) \<and>
   ''70000abc'' = Lights (DTLSStream.area oddStream) ! 3 \<and>
   ''70000abc'' = ''70000'' @ ''abc'' \<and>
   encodedID (buildStreamMessage oddStream Mapping.empty) 3 = 0 \<and>
   length (buildStreamMessage oddStream Mapping.empty) = 52"
proof -
  note k5 = light_id_field [of 0 exampleStream "''5''" Mapping.empty]
  note kp = light_id_field [of 0 oddStream "''12abc''" Mapping.empty]
  note k7 = light_id_field [of 1 oddStream "''70000''" Mapping.empty]
  note kl = light_id_field [of 2 oddStream "''lamp''" Mapping.empty]
  note kq = light_id_field [of 3 oddStream "''70000abc''" Mapping.empty]
  have a: "0 < length (Lights (DTLSStream.area exampleStream))"
    "''5'' = Lights (DTLSStream.area exampleStream) ! 0"
    by (simp_all add: exampleStream_def exampleArea_def)
  have b: "numericID ''5''" "length ''5'' \<le> hugeWid" "decimalValue ''5'' < 65536"
    "decimalValue ''5'' = 5"
    by (simp_all add: numericID_def isDigit_def decimalDigits_def hugeWid_def decimalValue_def
        digitVal_def)
  have c: "1 < length (Lights (DTLSStream.area oddStream))"
    "''70000'' = Lights (DTLSStream.area oddStream) ! 1"
    "2 < length (Lights (DTLSStream.area oddStream))"
    "''lamp'' = Lights (DTLSStream.area oddStream) ! 2"
    "length (Lights (DTLSStream.area oddStream)) = 4"
    "0 < length (Lights (DTLSStream.area oddStream))"
    "''12abc'' = Lights (DTLSStream.area oddStream) ! 0"
    "3 < length (Lights (DTLSStream.area oddStream))"
    "''70000abc'' = Lights (DTLSStream.area oddStream) ! 3"
    by (simp_all add: oddStream_def)
  have d: "numericID ''70000''" "length ''70000'' \<le> hugeWid" "65536 \<le> decimalValue ''70000''"
    by (simp_all add: numericID_def isDigit_def decimalDigits_def hugeWid_def decimalValue_def
        digitVal_def)
  have e: "\<not> isDigit (hd ''lamp'')" "space_width ''lamp'' = 0"
    by (simp_all add: isDigit_def decimalDigits_def)
  have p: "''12abc'' = ''12'' @ ''abc''" "numericID ''12''" "length ''12'' \<le> hugeWid"
    "\<not> isDigit (hd ''abc'')" "decimalValue ''12'' < 65536" "decimalValue ''12'' = 12"
    "''70000abc'' = ''70000'' @ ''abc''"
    by (simp_all add: numericID_def isDigit_def decimalDigits_def hugeWid_def decimalValue_def
        digitVal_def)
  from k5 [OF a] b have r5: "encodedID (buildStreamMessage exampleStream Mapping.empty) 0 = 5"
    by simp
  from kp [OF c(6,7)]
  have "''12abc'' = ''12'' @ ''abc'' \<and> numericID ''12'' \<and> length ''12'' \<le> hugeWid \<and>
        (''abc'' = [] \<or> \<not> isDigit (hd ''abc'')) \<and> decimalValue ''12'' < 65536 \<longrightarrow>
        encodedID (buildStreamMessage oddStream Mapping.empty) 0 = decimalValue ''12''"
    by blast
  with p have rp: "encodedID (buildStreamMessage oddStream Mapping.empty) 0 = 12"
    by simp
  from k7 [OF c(1,2)] d have r7: "encodedID (buildStreamMessage oddStream Mapping.empty) 1 = 0"
    by blast
  from kl [OF c(3,4)] e have rl: "encodedID (buildStreamMessage oddStream Mapping.empty) 2 = 0"
    by blast
  from kq [OF c(8,9)]
  have "''70000abc'' = ''70000'' @ ''abc'' \<and> numericID ''70000'' \<and>
        length ''70000'' \<le> hugeWid \<and> (''abc'' = [] \<or> \<not> isDigit (hd ''abc'')) \<and>
        65536 \<le> decimalValue ''70000'' \<longrightarrow>
        encodedID (buildStreamMessage oddStream Mapping.empty) 3 = 0"
    by blast
  with p d have rq: "encodedID (buildStreamMessage oddStream Mapping.empty) 3 = 0"
    by simp
  have f: "snd (Sscanf_d ''lamp'' 0) \<noteq> None"
    using Sscanf_d_no_number [of "''lamp''" 0] e by simp
  from kl [OF c(3,4)] c(5) have g: "length (buildStreamMessage oddStream Mapping.empty) = 52"
    by simp
  from a b(1-3) r5 c(6,7) p(1-5) rp c(1,2) d r7 c(3,4) e f rl c(8,9) p(7) rq g
  show ?thesis by (intro conjI)
qed

end
